theory Spec2Isabelle
  imports Main "HOL-Library.Word" "HOL-Library.AList" "HOL-Library.List_Lexorder" "HOL-Library.Char_ord"
begin

section \<open>CabinetForge: the archive editor and the CE CAB writer\<close>

text \<open>
  A shallow embedding of \<^verbatim>\<open>cabinetforge/cab_editor.py\<close> and
  \<^verbatim>\<open>cabinetforge/ce_cab_writer.py\<close>.

  Conventions of the model.
  \<^item> Python \<^verbatim>\<open>bytes\<close> are lists of 8-bit words, Python \<^verbatim>\<open>str\<close> are
    \<^typ>\<open>string\<close>s (lists of 8-bit characters, read as Latin-1 code points), so the
    model covers text within Latin-1.  Case mapping and character classes are Python's on
    these code points.  \<^verbatim>\<open>str.upper()\<close> takes two of them out of Latin-1 (the micro sign
    and the small y with diaeresis); a generated source name that holds such a capital is
    reported as \<open>NotLatin1\<close>, which is no exception of the code.
  \<^item> A raised exception is the \<open>Inl\<close> branch of a sum; the exception's class and message
    are kept.
  \<^item> Objects mutated in place (the editor, the archive, the XML tree) are passed in and
    returned updated.  A node of the XML tree is addressed by the list of child indexes
    leading to it from the root.
  \<^item> The third-party classes and functions the code calls (\<^verbatim>\<open>cabarchive\<close>,
    \<^verbatim>\<open>xml.etree\<close> parsing and serialisation, \<^verbatim>\<open>pathlib\<close>, \<^verbatim>\<open>werkzeug\<close>,
    \<^verbatim>\<open>zlib\<close>, the signature probe) are parameters, collected in the record \<open>env\<close>
    for the editor and passed one by one to the writer.
  \<^item> \<^verbatim>\<open>datetime.now()\<close> is an argument of every operation that reads the clock; the
    reads made within one call are taken at the same instant.
\<close>

subsection \<open>Bytes, text and errors\<close>

type_synonym byte = "8 word"

datatype error =
    RuntimeError string
  | KeyError string
  | ValueError string
  | SyntaxError string
  | StructError
  | OSError
  | ParseError
  | NotLatin1

definition upper_letters :: string where
  "upper_letters = ''ABCDEFGHIJKLMNOPQRSTUVWXYZ''"

definition lower_letters :: string where
  "lower_letters = ''abcdefghijklmnopqrstuvwxyz''"

definition digit_chars :: string where
  "digit_chars = ''0123456789''"

text \<open>
  The capital letters of Latin-1 above ASCII (\<^verbatim>\<open>U+00C0\<close> to \<^verbatim>\<open>U+00DE\<close> without the
  multiplication sign) and their small letters, \<^verbatim>\<open>0x20\<close> above them.
\<close>

definition latin1_upper_letters :: string where
  "latin1_upper_letters =
     [CHR 0xC0, CHR 0xC1, CHR 0xC2, CHR 0xC3, CHR 0xC4, CHR 0xC5, CHR 0xC6, CHR 0xC7,
      CHR 0xC8, CHR 0xC9, CHR 0xCA, CHR 0xCB, CHR 0xCC, CHR 0xCD, CHR 0xCE, CHR 0xCF,
      CHR 0xD0, CHR 0xD1, CHR 0xD2, CHR 0xD3, CHR 0xD4, CHR 0xD5, CHR 0xD6, CHR 0xD8,
      CHR 0xD9, CHR 0xDA, CHR 0xDB, CHR 0xDC, CHR 0xDD, CHR 0xDE]"

definition latin1_lower_letters :: string where
  "latin1_lower_letters =
     [CHR 0xE0, CHR 0xE1, CHR 0xE2, CHR 0xE3, CHR 0xE4, CHR 0xE5, CHR 0xE6, CHR 0xE7,
      CHR 0xE8, CHR 0xE9, CHR 0xEA, CHR 0xEB, CHR 0xEC, CHR 0xED, CHR 0xEE, CHR 0xEF,
      CHR 0xF0, CHR 0xF1, CHR 0xF2, CHR 0xF3, CHR 0xF4, CHR 0xF5, CHR 0xF6, CHR 0xF8,
      CHR 0xF9, CHR 0xFA, CHR 0xFB, CHR 0xFC, CHR 0xFD, CHR 0xFE]"

text \<open>
  The other alphanumeric characters of Latin-1: the ordinal indicators, the micro sign,
  the sharp s and the y with diaeresis (letters), the superscript digits and the vulgar
  fractions (numeric).
\<close>

definition latin1_other_alnum :: string where
  "latin1_other_alnum =
     [CHR 0xAA, CHR 0xB2, CHR 0xB3, CHR 0xB5, CHR 0xB9, CHR 0xBA, CHR 0xBC, CHR 0xBD,
      CHR 0xBE, CHR 0xDF, CHR 0xFF]"

text \<open>\<^verbatim>\<open>str.lower()\<close>, character by character.\<close>

definition lower_char :: "char \<Rightarrow> char" where
  "lower_char c =
     (case map_of (zip (upper_letters @ latin1_upper_letters) (lower_letters @ latin1_lower_letters)) c of
        Some d \<Rightarrow> d
      | None \<Rightarrow> c)"

definition lower :: "string \<Rightarrow> string" where
  "lower s = map lower_char s"

text \<open>
  \<^verbatim>\<open>str.upper()\<close>.  The sharp s becomes two letters; the micro sign and the small y with
  diaeresis become capitals outside Latin-1, the Greek capital mu (\<^verbatim>\<open>U+039C\<close>) and the
  capital y with diaeresis (\<^verbatim>\<open>U+0178\<close>).  Both are alphanumeric; the small letter of the
  first is outside Latin-1 too, the small letter of the second is \<^verbatim>\<open>U+00FF\<close>.
\<close>

datatype pychar = Latin1 char | CapitalMu | CapitalYDiaeresis

definition upper_char :: "char \<Rightarrow> pychar list" where
  "upper_char c =
     (if c = CHR 0xDF then [Latin1 (CHR ''S''), Latin1 (CHR ''S'')]
      else if c = CHR 0xB5 then [CapitalMu]
      else if c = CHR 0xFF then [CapitalYDiaeresis]
      else [Latin1 (case map_of (zip (lower_letters @ latin1_lower_letters)
                                     (upper_letters @ latin1_upper_letters)) c of
                      Some d \<Rightarrow> d
                    | None \<Rightarrow> c)])"

definition upper :: "string \<Rightarrow> pychar list" where
  "upper s = concat (map upper_char s)"

text \<open>The text as a string, when it is within Latin-1; and the lower-cased text.\<close>

definition narrow :: "pychar list \<Rightarrow> string option" where
  "narrow s = those (map (\<lambda>x. case x of Latin1 c \<Rightarrow> Some c | _ \<Rightarrow> None) s)"

definition lower_wide :: "pychar list \<Rightarrow> string option" where
  "lower_wide s =
     those (map (\<lambda>x. case x of
                         Latin1 c \<Rightarrow> Some (lower_char c)
                       | CapitalYDiaeresis \<Rightarrow> Some (CHR 0xFF)
                       | CapitalMu \<Rightarrow> None) s)"

text \<open>\<^verbatim>\<open>ch.isalnum()\<close>, for a character of Latin-1 and for one of \<open>upper\<close>.\<close>

definition isalnum :: "char \<Rightarrow> bool" where
  "isalnum c =
     (c \<in> set upper_letters \<or> c \<in> set lower_letters \<or> c \<in> set digit_chars
      \<or> c \<in> set latin1_upper_letters \<or> c \<in> set latin1_lower_letters
      \<or> c \<in> set latin1_other_alnum)"

definition isalnum_wide :: "pychar \<Rightarrow> bool" where
  "isalnum_wide x = (case x of Latin1 c \<Rightarrow> isalnum c | _ \<Rightarrow> True)"

text \<open>
  \<^verbatim>\<open>str.strip()\<close> removes the white space of \<^verbatim>\<open>str.isspace()\<close>: within Latin-1 the
  ASCII white space, the four separators \<^verbatim>\<open>0x1C\<close> to \<^verbatim>\<open>0x1F\<close>, the next-line control
  and the no-break space.
\<close>

definition is_space :: "char \<Rightarrow> bool" where
  "is_space c = (c \<in> set [CHR '' '', CHR 0x09, CHR 0x0A, CHR 0x0B, CHR 0x0C, CHR 0x0D,
                            CHR 0x1C, CHR 0x1D, CHR 0x1E, CHR 0x1F, CHR 0x85, CHR 0xA0])"

definition strip :: "string \<Rightarrow> string" where
  "strip s = rev (dropWhile is_space (rev (dropWhile is_space s)))"

definition startswith :: "string \<Rightarrow> string \<Rightarrow> bool" where
  "startswith s p = (take (length p) s = p)"

fun str_nat :: "nat \<Rightarrow> string" where
  "str_nat n = (if n < 10 then [digit_chars ! n] else str_nat (n div 10) @ [digit_chars ! (n mod 10)])"

definition zfill :: "nat \<Rightarrow> string \<Rightarrow> string" where
  "zfill w s = replicate (w - length s) (CHR ''0'') @ s"

subsection \<open>The XML tree\<close>

text \<open>
  An \<^verbatim>\<open>xml.etree.ElementTree.Element\<close>: tag, attribute dictionary and children.  The
  text and tail of an element are never read or written by the editor and are left out.
\<close>

datatype xml = Element (tag: string) (attrib: "(string \<times> string) list") (children: "xml list")

type_synonym xml_path = "nat list"

definition attrib_get :: "xml \<Rightarrow> string \<Rightarrow> string \<Rightarrow> string" where
  "attrib_get e k d = (case map_of (attrib e) k of Some v \<Rightarrow> v | None \<Rightarrow> d)"

definition attrib_set :: "string \<Rightarrow> string \<Rightarrow> xml \<Rightarrow> xml" where
  "attrib_set k v e = Element (tag e) (AList.update k v (attrib e)) (children e)"

definition append_child :: "xml \<Rightarrow> xml \<Rightarrow> xml" where
  "append_child c e = Element (tag e) (attrib e) (children e @ [c])"

definition remove_child :: "nat \<Rightarrow> xml \<Rightarrow> xml" where
  "remove_child i e = Element (tag e) (attrib e) (take i (children e) @ drop (Suc i) (children e))"

text \<open>The step \<^verbatim>\<open>tag[@key='value']\<close> of an ElementPath expression, as a test on one element.\<close>

definition step_match :: "string \<Rightarrow> string \<Rightarrow> string \<Rightarrow> xml \<Rightarrow> bool" where
  "step_match t k v e = (tag e = t \<and> map_of (attrib e) k = Some v)"

text \<open>\<^verbatim>\<open>e.findall("./characteristic")\<close>, each child with its index.\<close>

definition child_characteristics :: "xml \<Rightarrow> (nat \<times> xml) list" where
  "child_characteristics e = filter (\<lambda>(i, c). tag c = ''characteristic'') (enumerate 0 (children e))"

text \<open>\<^verbatim>\<open>e.find("./tag[@key='value']")\<close>: the first matching child, with its index.\<close>

definition find_child :: "string \<Rightarrow> string \<Rightarrow> string \<Rightarrow> xml \<Rightarrow> (nat \<times> xml) option" where
  "find_child t k v e = List.find (\<lambda>(i, c). step_match t k v c) (enumerate 0 (children e))"

text \<open>
  \<^verbatim>\<open>e.find("./t1[@k1='v1']/t2[@k2='v2']")\<close>: the matches of the second step under every
  match of the first, in document order; the first of them, with its path.
\<close>

definition find_grandchild ::
  "string \<Rightarrow> string \<Rightarrow> string \<Rightarrow> string \<Rightarrow> string \<Rightarrow> string \<Rightarrow> xml \<Rightarrow> (xml_path \<times> xml) option" where
  "find_grandchild t1 k1 v1 t2 k2 v2 e =
     (case concat (map (\<lambda>(i, c). map (\<lambda>(j, g). ([i, j], g))
                          (filter (\<lambda>(j, g). step_match t2 k2 v2 g) (enumerate 0 (children c))))
                   (filter (\<lambda>(i, c). step_match t1 k1 v1 c) (enumerate 0 (children e)))) of
        [] \<Rightarrow> None
      | r # _ \<Rightarrow> Some r)"

text \<open>
  \<^verbatim>\<open>e.findall(".//characteristic")\<close> walks every element below \<open>e\<close> in document order
  and keeps those with the tag; \<open>descendants\<close> is the walk, with the path of each element.
\<close>

fun descendants :: "xml \<Rightarrow> (xml_path \<times> xml) list"
  and descendants_from :: "nat \<Rightarrow> xml list \<Rightarrow> (xml_path \<times> xml) list" where
  "descendants (Element t a cs) = descendants_from 0 cs"
| "descendants_from i [] = []"
| "descendants_from i (c # cs) =
     ([i], c) # map (\<lambda>(p, d). (i # p, d)) (descendants c) @ descendants_from (Suc i) cs"

definition findall_descendant_characteristics :: "xml \<Rightarrow> (xml_path \<times> xml) list" where
  "findall_descendant_characteristics e = filter (\<lambda>(p, d). tag d = ''characteristic'') (descendants e)"

text \<open>In-place mutation of the node at a path.\<close>

fun update_at :: "xml_path \<Rightarrow> (xml \<Rightarrow> xml) \<Rightarrow> xml \<Rightarrow> xml" where
  "update_at [] f e = f e"
| "update_at (i # p) f e =
     Element (tag e) (attrib e) ((children e)[i := update_at p f (children e ! i)])"

subsection \<open>Archive entries and the archive\<close>

text \<open>
  A \<^verbatim>\<open>cabarchive.CabFile\<close> as the code reads it: the payload \<^verbatim>\<open>buf\<close> (which may be
  \<^verbatim>\<open>None\<close>), the \<^verbatim>\<open>date\<close> and \<^verbatim>\<open>time\<close> attributes, the attribute flags as
  \<^verbatim>\<open>_attr_encode()\<close> packs them, and the optional on-wire name \<^verbatim>\<open>_filename_win32\<close>.
  A \<^verbatim>\<open>cabarchive.CabArchive\<close> is the insertion-ordered dictionary it subclasses, with its
  \<^verbatim>\<open>set_id\<close> attribute (\<open>archive_set_id\<close>).
\<close>

type_synonym pydate = "nat \<times> nat \<times> nat"
type_synonym pytime = "nat \<times> nat \<times> nat"
type_synonym datetime = "pydate \<times> pytime"

record cab_file =
  buf :: "byte list option"
  date :: "pydate option"
  time :: "pytime option"
  attribs :: "16 word"
  filename_win32 :: "string option"

record cab_archive =
  entries :: "(string \<times> cab_file) list"
  archive_set_id :: nat

record upload =
  filename :: "string option"
  content :: "byte list"

text \<open>The collaborators of the editor that are not code of the repository.\<close>

record env =
  read_bytes :: "string \<Rightarrow> byte list option"
  cab_parse :: "byte list \<Rightarrow> cab_archive option"
  xml_parse :: "string \<Rightarrow> byte list \<Rightarrow> xml option"
  xml_tostring :: "xml \<Rightarrow> byte list"
  archive_save :: "cab_archive \<Rightarrow> bool \<Rightarrow> bool \<Rightarrow> error + byte list"
  signature_status :: "string \<Rightarrow> error + (string \<times> string) list"
  secure_filename :: "string \<Rightarrow> string"
  path_name :: "string \<Rightarrow> string"
  path_stem :: "string \<Rightarrow> string"
  path_suffix :: "string \<Rightarrow> string"
  fresh_attribs :: "16 word"
  find_quoted :: "xml \<Rightarrow> string \<Rightarrow> error + xml_path option"

text \<open>\<^verbatim>\<open>CabFile(payload, mtime=now)\<close>: a new entry, every other attribute at its default.\<close>

definition CabFile :: "env \<Rightarrow> byte list \<Rightarrow> datetime \<Rightarrow> cab_file" where
  "CabFile env payload now =
     \<lparr>buf = Some payload, date = Some (fst now), time = Some (snd now),
      attribs = fresh_attribs env, filename_win32 = None\<rparr>"

text \<open>\<^verbatim>\<open>cab_file.buf or b""\<close>.\<close>

definition buf_or_empty :: "cab_file \<Rightarrow> byte list" where
  "buf_or_empty f = (case buf f of None \<Rightarrow> [] | Some b \<Rightarrow> b)"

definition archive_contains :: "cab_archive \<Rightarrow> string \<Rightarrow> bool" where
  "archive_contains a name = (map_of (entries a) name \<noteq> None)"

definition archive_set :: "string \<Rightarrow> cab_file \<Rightarrow> cab_archive \<Rightarrow> cab_archive" where
  "archive_set name f a = a\<lparr>entries := AList.update name f (entries a)\<rparr>"

definition archive_del :: "string \<Rightarrow> cab_archive \<Rightarrow> cab_archive" where
  "archive_del name a = a\<lparr>entries := AList.delete name (entries a)\<rparr>"

subsection \<open>The manifest coordinator\<close>

text \<open>\<^verbatim>\<open>file_node.find("./characteristic[@type='Extract']/parm[@name='Source']")\<close>.\<close>

definition find_extract :: "xml \<Rightarrow> xml option" where
  "find_extract file_node =
     map_option snd
       (find_grandchild ''characteristic'' ''type'' ''Extract'' ''parm'' ''name'' ''Source'' file_node)"

definition find_fileop :: "xml \<Rightarrow> (nat \<times> xml) option" where
  "find_fileop root = find_child ''characteristic'' ''type'' ''FileOperation'' root"

definition iter_file_nodes :: "xml \<Rightarrow> (xml \<times> xml \<times> xml) list" where
  "iter_file_nodes root =
     (case find_fileop root of
        None \<Rightarrow> []
      | Some (k, fileop) \<Rightarrow>
          concat (map (\<lambda>(p, parent).
                    concat (map (\<lambda>(i, file_node).
                              (case find_extract file_node of
                                 None \<Rightarrow> []
                               | Some extract \<Rightarrow> [(parent, file_node, extract)]))
                            (child_characteristics parent)))
                  (findall_descendant_characteristics fileop)))"

text \<open>
  \<open>remove_xml_file_node\<close> returns whether a node was removed, and the tree after the call:
  the file node is the child \<open>i\<close> of the parent at path \<open>p\<close> below \<open>FileOperation\<close>.
\<close>

definition remove_xml_file_node :: "xml \<Rightarrow> string \<Rightarrow> bool \<times> xml" where
  "remove_xml_file_node root source_name =
     (case find_fileop root of
        None \<Rightarrow> (False, root)
      | Some (k, fileop) \<Rightarrow>
          (case List.find (\<lambda>(p, i, extract). lower (attrib_get extract ''value'' []) = lower source_name)
                  (concat (map (\<lambda>(p, parent).
                             concat (map (\<lambda>(i, file_node).
                                       (case find_extract file_node of
                                          None \<Rightarrow> []
                                        | Some extract \<Rightarrow> [(p, i, extract)]))
                                     (child_characteristics parent)))
                           (findall_descendant_characteristics fileop))) of
             None \<Rightarrow> (False, root)
           | Some (p, i, extract) \<Rightarrow> (True, update_at (k # p) (remove_child i) root)))"

definition append_xml_file_node :: "xml \<Rightarrow> xml_path \<Rightarrow> string \<Rightarrow> string \<Rightarrow> xml" where
  "append_xml_file_node root parent display_name source_name =
     update_at parent
       (append_child
          (Element ''characteristic'' [(''type'', display_name), (''translation'', ''install'')]
             [Element ''characteristic'' [(''type'', ''Extract'')]
                [Element ''parm'' [(''name'', ''Source''), (''value'', source_name)] []]]))
       root"

text \<open>
  \<open>resolve_target_parent\<close> returns the path of the chosen parent.  The source splices the
  directory into the path expression \<^verbatim>\<open>./characteristic[@type='{directory}']\<close>.  For a
  directory without a single quote the expression is the comparison of the \<^verbatim>\<open>type\<close>
  attribute with the directory (the tokenizer of \<^verbatim>\<open>ElementPath\<close> takes everything up to
  the closing quote as the value).  A directory with a single quote ends the quoted value
  early: what the library makes of the expression, a \<^verbatim>\<open>SyntaxError\<close> or the result of
  another path, is the parameter \<open>find_quoted\<close>, which gives the path of the node found
  below \<^verbatim>\<open>FileOperation\<close>.
\<close>

definition find_directory :: "env \<Rightarrow> xml \<Rightarrow> string \<Rightarrow> error + xml_path option" where
  "find_directory env fileop directory =
     (if CHR 0x27 \<in> set directory then find_quoted env fileop directory
      else Inr (map_option (\<lambda>(i, node). [i]) (find_child ''characteristic'' ''type'' directory fileop)))"

definition resolve_target_parent :: "env \<Rightarrow> xml \<Rightarrow> string \<Rightarrow> error + xml_path option" where
  "resolve_target_parent env root directory =
     (case find_fileop root of
        None \<Rightarrow> Inr None
      | Some (k, fileop) \<Rightarrow>
          (case (if directory \<noteq> [] then find_directory env fileop directory else Inr None) of
             Inl e \<Rightarrow> Inl e
           | Inr (Some p) \<Rightarrow> Inr (Some (k # p))
           | Inr None \<Rightarrow>
               (case List.find (\<lambda>(i, node). map_of (attrib node) ''translation'' = Some ''install'')
                       (child_characteristics fileop) of
                  Some (i, node) \<Rightarrow> Inr (Some [k, i])
                | None \<Rightarrow> Inr (Some [k]))))"

text \<open>The \<^verbatim>\<open>parm\<close> that \<open>_update_numfiles\<close> looks up, and its value.\<close>

definition find_numfiles :: "xml \<Rightarrow> (xml_path \<times> xml) option" where
  "find_numfiles root =
     find_grandchild ''characteristic'' ''type'' ''Install'' ''parm'' ''name'' ''NumFiles'' root"

definition numfiles_value :: "xml \<Rightarrow> string option" where
  "numfiles_value root =
     (case find_numfiles root of None \<Rightarrow> None | Some (p, parm) \<Rightarrow> map_of (attrib parm) ''value'')"

subsection \<open>The editor\<close>

record CabRecord =
  display_name :: string
  source_name :: string
  size_bytes :: nat
  modified :: string
  parent_type :: string

record editor =
  path :: "string option"
  loaded_name :: string
  archive :: "cab_archive option"
  xml_root :: "xml option"
  setup_encoding :: string
  records :: "CabRecord list"
  directories :: "string list"
  signature_before :: "(string \<times> string) list"

text \<open>\<open>CabEditor.__init__\<close>.\<close>

definition new_editor :: editor where
  "new_editor =
     \<lparr>path = None, loaded_name = ''cabinetforge_output'', archive = None, xml_root = None,
      setup_encoding = ''utf-8'', records = [], directories = [], signature_before = []\<rparr>"

text \<open>\<^verbatim>\<open>not self.archive\<close>: no archive, or an archive with no entry.\<close>

definition archive_falsy :: "editor \<Rightarrow> bool" where
  "archive_falsy ed = (case archive ed of None \<Rightarrow> True | Some a \<Rightarrow> entries a = [])"

definition require_archive :: "editor \<Rightarrow> error + cab_archive" where
  "require_archive ed =
     (case archive ed of
        None \<Rightarrow> Inl (RuntimeError ''No CAB loaded'')
      | Some a \<Rightarrow> if entries a = [] then Inl (RuntimeError ''No CAB loaded'') else Inr a)"

definition format_cabfile_time :: "cab_file \<Rightarrow> string" where
  "format_cabfile_time f =
     (case date f of
        None \<Rightarrow> []
      | Some (y, m, d) \<Rightarrow>
          (let ds = zfill 4 (str_nat y) @ ''-'' @ zfill 2 (str_nat m) @ ''-'' @ zfill 2 (str_nat d) in
           case time f of
             None \<Rightarrow> ds
           | Some (hh, mm, ss) \<Rightarrow>
               ds @ '' '' @ zfill 2 (str_nat hh) @ '':'' @ zfill 2 (str_nat mm) @ '':'' @ zfill 2 (str_nat ss)))"

definition rebuild_index :: "editor \<Rightarrow> editor" where
  "rebuild_index ed =
     (case archive ed of
        None \<Rightarrow> ed\<lparr>records := [], directories := []\<rparr>
      | Some a \<Rightarrow>
          if entries a = [] then ed\<lparr>records := [], directories := []\<rparr>
          else
            (case xml_root ed of
               None \<Rightarrow>
                 ed\<lparr>records :=
                       map (\<lambda>(name, f).
                              \<lparr>display_name = name, source_name = name,
                               size_bytes = length (buf_or_empty f),
                               modified = format_cabfile_time f, parent_type = []\<rparr>)
                           (entries a),
                    directories := []\<rparr>
             | Some root \<Rightarrow>
                 (let recs =
                        concat (map (\<lambda>(parent, file_node, extract_node).
                                  (let dn = attrib_get file_node ''type'' [];
                                       sn = attrib_get extract_node ''value'' [];
                                       pt = attrib_get parent ''type'' []
                                   in if dn = [] \<or> sn = [] then []
                                      else (case map_of (entries a) sn of
                                              None \<Rightarrow> []
                                            | Some f \<Rightarrow>
                                                [\<lparr>display_name = dn, source_name = sn,
                                                  size_bytes = length (buf_or_empty f),
                                                  modified = format_cabfile_time f,
                                                  parent_type = pt\<rparr>])))
                                (iter_file_nodes root))
                  in ed\<lparr>records := recs,
                        directories :=
                          sort (remdups (filter (\<lambda>t. t \<noteq> [] \<and> startswith t [CHR 0x5C])
                                                (map parent_type recs)))\<rparr>)))"

definition update_numfiles :: "editor \<Rightarrow> editor" where
  "update_numfiles ed =
     (case xml_root ed of
        None \<Rightarrow> ed
      | Some root \<Rightarrow>
          (case find_numfiles root of
             None \<Rightarrow> ed
           | Some (p, parm) \<Rightarrow>
               ed\<lparr>xml_root := Some (update_at p (attrib_set ''value'' (str_nat (length (records ed)))) root)\<rparr>))"

definition sync_setup_xml :: "env \<Rightarrow> datetime \<Rightarrow> editor \<Rightarrow> editor" where
  "sync_setup_xml env now ed =
     (case archive ed of
        None \<Rightarrow> ed
      | Some a \<Rightarrow>
          if entries a = [] then ed
          else (case xml_root ed of
                  None \<Rightarrow> ed
                | Some root \<Rightarrow>
                    ed\<lparr>archive := Some (archive_set ''_setup.xml'' (CabFile env (xml_tostring env root) now) a)\<rparr>))"

definition load_setup_xml :: "env \<Rightarrow> editor \<Rightarrow> editor" where
  "load_setup_xml env ed =
     (let ed0 = ed\<lparr>xml_root := None, setup_encoding := ''utf-8''\<rparr> in
      case archive ed0 of
        None \<Rightarrow> ed0
      | Some a \<Rightarrow>
          (case map_of (entries a) ''_setup.xml'' of
             None \<Rightarrow> ed0
           | Some f \<Rightarrow>
               (case List.find (\<lambda>encoding. xml_parse env encoding (buf_or_empty f) \<noteq> None)
                       [''utf-8'', ''utf-16'', ''utf-16le'', ''latin-1''] of
                  None \<Rightarrow> ed0
                | Some encoding \<Rightarrow>
                    ed0\<lparr>xml_root := xml_parse env encoding (buf_or_empty f),
                        setup_encoding := encoding\<rparr>)))"

text \<open>
  \<open>load\<close>: \<open>None\<close> from \<open>read_bytes\<close> or \<open>cab_parse\<close> is the exception the call raises
  (the file cannot be read, the bytes do not parse as a CAB).
\<close>

definition load :: "env \<Rightarrow> editor \<Rightarrow> string \<Rightarrow> string option \<Rightarrow> (error + unit) \<times> editor" where
  "load env ed file_path display =
     (let ed1 = ed\<lparr>path := Some file_path\<rparr>;
          candidate = strip (case display of
                               None \<Rightarrow> path_stem env file_path
                             | Some d \<Rightarrow> if d \<noteq> [] then d else path_stem env file_path);
          stem = path_stem env candidate;
          ed2 = ed1\<lparr>loaded_name := (if stem \<noteq> [] then stem else ''cabinetforge_output'')\<rparr>
      in case read_bytes env file_path of
           None \<Rightarrow> (Inl OSError, ed2)
         | Some bytes \<Rightarrow>
             (case cab_parse env bytes of
                None \<Rightarrow> (Inl ParseError, ed2)
              | Some a \<Rightarrow>
                  (let ed3 = rebuild_index (load_setup_xml env (ed2\<lparr>archive := Some a\<rparr>))
                   in case signature_status env file_path of
                        Inl e \<Rightarrow> (Inl e, ed3)
                      | Inr s \<Rightarrow> (Inr (), ed3\<lparr>signature_before := s\<rparr>))))"

definition update_file ::
  "env \<Rightarrow> datetime \<Rightarrow> editor \<Rightarrow> string \<Rightarrow> upload \<Rightarrow> (error + unit) \<times> editor" where
  "update_file env now ed name up =
     (case require_archive ed of
        Inl e \<Rightarrow> (Inl e, ed)
      | Inr a \<Rightarrow>
          (let payload = content up in
           if \<not> archive_contains a name
           then (Inl (KeyError (''File '' @ name @ '' not found in CAB'')), ed)
           else if payload = [] then (Inl (ValueError ''Uploaded file is empty''), ed)
           else (Inr (), rebuild_index (ed\<lparr>archive := Some (archive_set name (CabFile env payload now) a)\<rparr>))))"

definition remove_file :: "env \<Rightarrow> datetime \<Rightarrow> editor \<Rightarrow> string \<Rightarrow> (error + unit) \<times> editor" where
  "remove_file env now ed name =
     (case require_archive ed of
        Inl e \<Rightarrow> (Inl e, ed)
      | Inr a \<Rightarrow>
          (let ed1 = (if archive_contains a name then ed\<lparr>archive := Some (archive_del name a)\<rparr> else ed)
           in case xml_root ed1 of
                None \<Rightarrow> (Inr (), rebuild_index ed1)
              | Some root \<Rightarrow>
                  (case remove_xml_file_node root name of
                     (removed, root') \<Rightarrow>
                       if \<not> removed
                       then (Inl (KeyError (''No matching _setup.xml entry for '' @ name)), ed1)
                       else (Inr (),
                             rebuild_index
                               (sync_setup_xml env now
                                  (update_numfiles (ed1\<lparr>xml_root := Some root'\<rparr>)))))))"

text \<open>
  The loop \<^verbatim>\<open>for idx in range(1, 1000)\<close> of \<open>generate_source_name\<close>, from \<open>idx\<close> on.
  A candidate whose lower-cased text is outside Latin-1 is not among the lower-cased keys.
\<close>

function first_candidate :: "pychar list \<Rightarrow> pychar list \<Rightarrow> string list \<Rightarrow> nat \<Rightarrow> pychar list option" where
  "first_candidate stem ext existing_lower idx =
     (if 1000 \<le> idx then None
      else (let candidate = stem @ map Latin1 (''~'' @ str_nat idx @ ''.'') @ ext
            in if (case lower_wide candidate of None \<Rightarrow> True | Some l \<Rightarrow> l \<notin> set existing_lower)
               then Some candidate
               else first_candidate stem ext existing_lower (Suc idx)))"
  by pat_completeness auto
termination
  by (relation "measure (\<lambda>(stem, ext, existing_lower, idx). 1000 - idx)") auto

text \<open>
  \<open>timestamp\<close> is \<^verbatim>\<open>int(dt.datetime.now().timestamp())\<close>, read for the fallback name.
  A candidate that holds a capital outside Latin-1 is a name the model's strings cannot
  hold: the answer is then \<open>NotLatin1\<close>.
\<close>

definition generate_source_name :: "env \<Rightarrow> string \<Rightarrow> string list \<Rightarrow> nat \<Rightarrow> error + string" where
  "generate_source_name env display existing_lower timestamp =
     (let name = path_name env display;
          stem0 = filter isalnum_wide (upper (path_stem env name));
          stem1 = (if stem0 = [] then map Latin1 ''PYFILE'' else stem0);
          ext0 = take 3 (filter isalnum_wide
                           (upper (filter (\<lambda>c. c \<noteq> CHR ''.'') (path_suffix env name))));
          ext = (if ext0 = [] then map Latin1 ''BIN'' else ext0);
          stem = take 6 stem1
      in case first_candidate stem ext existing_lower 1 of
           Some candidate \<Rightarrow>
             (case narrow candidate of Some c \<Rightarrow> Inr c | None \<Rightarrow> Inl NotLatin1)
         | None \<Rightarrow>
             (let fallback = ''PY'' @ str_nat timestamp @ ''.DAT''
              in if lower fallback \<notin> set existing_lower then Inr fallback
                 else Inl (RuntimeError ''Unable to generate unique Source name'')))"

definition add_file ::
  "env \<Rightarrow> datetime \<Rightarrow> nat \<Rightarrow> editor \<Rightarrow> upload \<Rightarrow> string \<Rightarrow> string \<Rightarrow> (error + unit) \<times> editor" where
  "add_file env now timestamp ed up display directory =
     (case require_archive ed of
        Inl e \<Rightarrow> (Inl e, ed)
      | Inr a \<Rightarrow>
          (let fname = secure_filename env (case filename up of None \<Rightarrow> [] | Some n \<Rightarrow> n);
               payload = content up
           in if payload = [] then (Inl (ValueError ''Uploaded file is empty''), ed)
              else
                (let final_name = (if display \<noteq> [] then strip display else fname)
                 in if final_name = [] then (Inl (ValueError ''Display name is required''), ed)
                    else
                      (case generate_source_name env final_name (map (\<lambda>(n, f). lower n) (entries a)) timestamp of
                         Inl e \<Rightarrow> (Inl e, ed)
                       | Inr sname \<Rightarrow>
                           (let ed1 = ed\<lparr>archive := Some (archive_set sname (CabFile env payload now) a)\<rparr>
                            in case xml_root ed1 of
                                 None \<Rightarrow> (Inr (), rebuild_index ed1)
                               | Some root \<Rightarrow>
                                   (case resolve_target_parent env root directory of
                                      Inl e \<Rightarrow> (Inl e, ed1)
                                    | Inr None \<Rightarrow>
                                        (Inl (ValueError ''Could not determine insertion directory in _setup.xml''), ed1)
                                    | Inr (Some target_parent) \<Rightarrow>
                                        (Inr (),
                                         rebuild_index
                                           (sync_setup_xml env now
                                              (update_numfiles
                                                 (ed1\<lparr>xml_root :=
                                                        Some (append_xml_file_node root target_parent final_name sname)\<rparr>))))))))))"

definition get_file_bytes :: "editor \<Rightarrow> string \<Rightarrow> error + byte list" where
  "get_file_bytes ed name =
     (case require_archive ed of
        Inl e \<Rightarrow> Inl e
      | Inr a \<Rightarrow>
          (case map_of (entries a) name of
             None \<Rightarrow> Inl (KeyError (''Missing file: '' @ name))
           | Some f \<Rightarrow> Inr (buf_or_empty f)))"

text \<open>
  \<open>build_cab_bytes\<close> hands the archive to its own \<^verbatim>\<open>save\<close> method, which is the
  \<^verbatim>\<open>cabarchive\<close> package's (the parameter \<open>archive_save\<close>); the editor after the call is
  returned too, since the resynchronisation writes the \<^verbatim>\<open>_setup.xml\<close> entry.
\<close>

definition build_cab_bytes :: "env \<Rightarrow> datetime \<Rightarrow> editor \<Rightarrow> bool \<Rightarrow> (error + byte list) \<times> editor" where
  "build_cab_bytes env now ed compress =
     (case require_archive ed of
        Inl e \<Rightarrow> (Inl e, ed)
      | Inr a0 \<Rightarrow>
          (let ed1 = (if xml_root ed \<noteq> None then sync_setup_xml env now ed else ed)
           in case archive ed1 of
                None \<Rightarrow> (Inl (RuntimeError ''No CAB loaded''), ed1)
              | Some a \<Rightarrow> (archive_save env a compress True, ed1)))"

subsection \<open>Packed binary records\<close>

text \<open>
  Python's \<^verbatim>\<open>struct\<close> module for the little-endian formats the writer uses: unsigned
  integers of a given number of bytes (\<^verbatim>\<open>B\<close>, \<^verbatim>\<open>H\<close>, \<^verbatim>\<open>I\<close>), pad bytes
  (\<^verbatim>\<open>x\<close>) and fixed-length byte strings (\<^verbatim>\<open>4s\<close>).  \<^verbatim>\<open>struct.pack\<close> raises
  \<^verbatim>\<open>struct.error\<close> for a value out of range, \<^verbatim>\<open>struct.unpack_from\<close> for a buffer
  that is too short.
\<close>

datatype fmt_item = UInt nat | Pad nat | Chars nat

datatype sval = VInt nat | VBytes "byte list"

fun le_bytes :: "nat \<Rightarrow> nat \<Rightarrow> byte list" where
  "le_bytes 0 v = []"
| "le_bytes (Suc n) v = of_nat (v mod 256) # le_bytes n (v div 256)"

fun le_nat :: "byte list \<Rightarrow> nat" where
  "le_nat [] = 0"
| "le_nat (b # bs) = unat b + 256 * le_nat bs"

fun struct_calcsize :: "fmt_item list \<Rightarrow> nat" where
  "struct_calcsize [] = 0"
| "struct_calcsize (UInt n # fs) = n + struct_calcsize fs"
| "struct_calcsize (Pad n # fs) = n + struct_calcsize fs"
| "struct_calcsize (Chars n # fs) = n + struct_calcsize fs"

fun struct_pack :: "fmt_item list \<Rightarrow> sval list \<Rightarrow> error + byte list" where
  "struct_pack [] [] = Inr []"
| "struct_pack (Pad n # fs) vs =
     (case struct_pack fs vs of Inl e \<Rightarrow> Inl e | Inr bs \<Rightarrow> Inr (replicate n 0 @ bs))"
| "struct_pack (UInt n # fs) (VInt v # vs) =
     (if v < 256 ^ n
      then (case struct_pack fs vs of Inl e \<Rightarrow> Inl e | Inr bs \<Rightarrow> Inr (le_bytes n v @ bs))
      else Inl StructError)"
| "struct_pack (Chars n # fs) (VBytes b # vs) =
     (case struct_pack fs vs of
        Inl e \<Rightarrow> Inl e
      | Inr bs \<Rightarrow> Inr (take n b @ replicate (n - length b) 0 @ bs))"
| "struct_pack fs vs = Inl StructError"

text \<open>The fields of a buffer that holds at least the format's size.\<close>

fun struct_unpack :: "fmt_item list \<Rightarrow> byte list \<Rightarrow> sval list" where
  "struct_unpack [] bs = []"
| "struct_unpack (Pad n # fs) bs = struct_unpack fs (drop n bs)"
| "struct_unpack (UInt n # fs) bs = VInt (le_nat (take n bs)) # struct_unpack fs (drop n bs)"
| "struct_unpack (Chars n # fs) bs = VBytes (take n bs) # struct_unpack fs (drop n bs)"

definition struct_unpack_from :: "fmt_item list \<Rightarrow> byte list \<Rightarrow> nat \<Rightarrow> error + sval list" where
  "struct_unpack_from fmt bytes offset =
     (if offset + struct_calcsize fmt \<le> length bytes
      then Inr (struct_unpack fmt (drop offset bytes))
      else Inl StructError)"

text \<open>
  Modelled from the spec: the format strings of \<^verbatim>\<open>cabarchive.utils\<close>, which the
  repository imports.  They are the fixed little-endian CAB records of the spec's section
  on the CAB file format: CFHEADER (signature, size, offset of the file table, minor and
  major version, folder count, file count, flags, set id, cabinet index; the three
  reserved 32-bit fields of the CAB header are pad bytes), the reserve descriptor (u16,
  u8, u8), CFFOLDER (u32, u16, u16), CFFILE (u32, u32, u16, u16, u16, u16) and CFDATA
  (u32, u16, u16).
\<close>

definition FMT_CFHEADER :: "fmt_item list" where
  "FMT_CFHEADER =
     [Chars 4, Pad 4, UInt 4, Pad 4, UInt 4, Pad 4, UInt 1, UInt 1, UInt 2, UInt 2, UInt 2, UInt 2, UInt 2]"

definition FMT_CFHEADER_RESERVE :: "fmt_item list" where
  "FMT_CFHEADER_RESERVE = [UInt 2, UInt 1, UInt 1]"

definition FMT_CFFOLDER :: "fmt_item list" where
  "FMT_CFFOLDER = [UInt 4, UInt 2, UInt 2]"

definition FMT_CFFILE :: "fmt_item list" where
  "FMT_CFFILE = [UInt 4, UInt 4, UInt 2, UInt 2, UInt 2, UInt 2]"

definition FMT_CFDATA :: "fmt_item list" where
  "FMT_CFDATA = [UInt 4, UInt 2, UInt 2]"

definition MSCF :: "byte list" where
  "MSCF = [0x4D, 0x53, 0x43, 0x46]"

text \<open>
  Latin-1 text and bytes.  A \<^typ>\<open>string\<close> holds code points below 256 only, so
  \<^verbatim>\<open>encode("latin-1", errors="ignore")\<close> drops nothing.
\<close>

definition latin1 :: "string \<Rightarrow> byte list" where
  "latin1 s = map (\<lambda>c. of_nat (of_char c)) s"

definition latin1_decode :: "byte list \<Rightarrow> string" where
  "latin1_decode bs = map (\<lambda>b. char_of (unat b)) bs"

text \<open>
  \<^verbatim>\<open>buf.find(b"\x00", offset)\<close>: the index of the first zero byte at or after the
  offset, \<open>None\<close> for Python's \<^verbatim>\<open>-1\<close>.
\<close>

definition find_nul :: "byte list \<Rightarrow> nat \<Rightarrow> nat option" where
  "find_nul bytes offset =
     (let rest = drop offset bytes
      in if 0 \<in> set rest then Some (offset + length (takeWhile (\<lambda>b. b \<noteq> 0) rest)) else None)"

text \<open>
  Modelled from the spec: \<^verbatim>\<open>_chunkify\<close> of \<^verbatim>\<open>cabarchive.utils\<close>, which splits the data
  into chunks of the given size, the last one possibly shorter, and gives no chunk for
  empty data.
\<close>

function chunkify :: "nat \<Rightarrow> byte list \<Rightarrow> byte list list" where
  "chunkify n xs = (if n = 0 \<or> xs = [] then [] else take n xs # chunkify n (drop n xs))"
  by pat_completeness auto
termination
  by (relation "measure (\<lambda>(n, xs). length xs)") auto

subsection \<open>The CE CAB writer\<close>

record CabLayoutTemplate =
  set_id :: nat
  cb_cfheader :: nat
  cb_cffolder :: nat
  cb_cfdata :: nat
  header_reserve :: "byte list"
  folder_reserves :: "byte list list"
  file_order :: "string list"
  file_folders :: "(string \<times> nat) list"

record FolderBuild =
  folder_key :: nat
  names :: "string list"
  reserve :: "byte list"
  blocks :: "(byte list \<times> nat) list"

text \<open>
  What the writer takes from outside the repository: raw DEFLATE at level 9
  (\<^verbatim>\<open>zlib\<close>), the seeded block checksum \<^verbatim>\<open>_checksum_compute\<close>, the packed date and
  time of an entry (\<^verbatim>\<open>CabFile._date_encode\<close>, \<^verbatim>\<open>CabFile._time_encode\<close>), and the
  order in which Python iterates over a set of strings (\<^verbatim>\<open>list(names)\<close>).
\<close>

record codec =
  deflate :: "byte list \<Rightarrow> byte list"
  checksum_compute :: "byte list \<Rightarrow> 32 word \<Rightarrow> 32 word"
  date_encode :: "cab_file \<Rightarrow> 16 word"
  time_encode :: "cab_file \<Rightarrow> 16 word"
  set_iteration :: "string list \<Rightarrow> string list"

text \<open>Modelled from the spec: \<^verbatim>\<open>len(cab_file)\<close> is the length of the payload.\<close>

definition cab_len :: "cab_file \<Rightarrow> nat" where
  "cab_len f = length (buf_or_empty f)"

text \<open>The first error of a list of results, or all the values.\<close>

fun collect :: "(error + 'a) list \<Rightarrow> error + 'a list" where
  "collect [] = Inr []"
| "collect (Inl e # rs) = Inl e"
| "collect (Inr v # rs) = (case collect rs of Inl e \<Rightarrow> Inl e | Inr vs \<Rightarrow> Inr (v # vs))"

text \<open>
  \<open>_order_names\<close>.  The set \<^verbatim>\<open>names\<close> is held as the list of its elements; the loop
  over the template's file order moves a name from the set to the ordered list.
\<close>

fun order_loop :: "string list \<Rightarrow> string list \<Rightarrow> string list \<Rightarrow> string list \<times> string list" where
  "order_loop [] ordered remaining = (ordered, remaining)"
| "order_loop (name # rest) ordered remaining =
     (if name \<in> set remaining
      then order_loop rest (ordered @ [name]) (removeAll name remaining)
      else order_loop rest ordered remaining)"

definition order_names :: "codec \<Rightarrow> cab_archive \<Rightarrow> CabLayoutTemplate option \<Rightarrow> bool \<Rightarrow> string list" where
  "order_names cd a template sorted_output =
     (let keys = remdups (map fst (entries a));
          (ordered, remaining) =
             (case template of
                None \<Rightarrow> ([], keys)
              | Some t \<Rightarrow> order_loop (file_order t) [] keys);
          extras = (if sorted_output then sort remaining else set_iteration cd remaining)
      in ordered @ extras)"

text \<open>
  \<open>_build_folders\<close>.  \<^verbatim>\<open>keyed.setdefault(key, []).append(name)\<close> on the
  insertion-ordered dictionary \<^verbatim>\<open>keyed\<close>:
\<close>

definition setdefault_append :: "nat \<Rightarrow> string \<Rightarrow> (nat \<times> string list) list \<Rightarrow> (nat \<times> string list) list" where
  "setdefault_append key name keyed =
     (case map_of keyed key of
        None \<Rightarrow> keyed @ [(key, [name])]
      | Some ns \<Rightarrow> AList.update key (ns @ [name]) keyed)"

fun key_loop ::
  "(string \<times> nat) list \<Rightarrow> nat \<Rightarrow> string list \<Rightarrow> (nat \<times> string list) list \<Rightarrow> (nat \<times> string list) list" where
  "key_loop ff next_key [] keyed = keyed"
| "key_loop ff next_key (name # rest) keyed =
     (case map_of ff name of
        Some key \<Rightarrow> key_loop ff next_key rest (setdefault_append key name keyed)
      | None \<Rightarrow> key_loop ff (Suc next_key) rest (setdefault_append next_key name keyed))"

text \<open>\<^verbatim>\<open>max(template.file_folders.values(), default=-1) + 1\<close>.\<close>

definition first_new_key :: "(string \<times> nat) list \<Rightarrow> nat" where
  "first_new_key ff = (case map snd ff of [] \<Rightarrow> 0 | v # vs \<Rightarrow> Suc (fold max vs v))"

text \<open>\<^verbatim>\<open>b"".join((archive[name].buf or b"") for name in names)\<close>.\<close>

fun join_payloads :: "cab_archive \<Rightarrow> string list \<Rightarrow> error + byte list" where
  "join_payloads a [] = Inr []"
| "join_payloads a (name # rest) =
     (case map_of (entries a) name of
        None \<Rightarrow> Inl (KeyError name)
      | Some f \<Rightarrow>
          (case join_payloads a rest of
             Inl e \<Rightarrow> Inl e
           | Inr raw \<Rightarrow> Inr (buf_or_empty f @ raw)))"

definition CK :: "byte list" where
  "CK = [0x43, 0x4B]"

definition build_folder ::
  "codec \<Rightarrow> cab_archive \<Rightarrow> CabLayoutTemplate \<Rightarrow> bool \<Rightarrow> nat \<times> string list \<Rightarrow> error + FolderBuild" where
  "build_folder cd a t compress kn =
     (case kn of
        (key, ns) \<Rightarrow>
          (let reserve0 = (if key < length (folder_reserves t) then folder_reserves t ! key
                           else replicate (cb_cffolder t) 0);
               reserve1 = (if length reserve0 < cb_cffolder t
                           then reserve0 @ replicate (cb_cffolder t - length reserve0) 0
                           else reserve0);
               reserve2 = take (cb_cffolder t) reserve1
           in case join_payloads a ns of
                Inl e \<Rightarrow> Inl e
              | Inr raw \<Rightarrow>
                  (let chunks0 = chunkify 0x8000 raw;
                       chunks = (if chunks0 = [] then [[]] else chunks0)
                   in Inr \<lparr>folder_key = key, names = ns, reserve = reserve2,
                           blocks = map (\<lambda>plain. (if compress then CK @ deflate cd plain else plain,
                                                     length plain))
                                        chunks\<rparr>)))"

definition build_folders ::
  "codec \<Rightarrow> cab_archive \<Rightarrow> string list \<Rightarrow> CabLayoutTemplate \<Rightarrow> bool \<Rightarrow> error + FolderBuild list" where
  "build_folders cd a ordered_names t compress =
     collect (map (build_folder cd a t compress)
                  (key_loop (file_folders t) (first_new_key (file_folders t)) ordered_names []))"

text \<open>\<open>_build_uncompressed_offsets\<close>, the dictionary as an association list.\<close>

fun folder_offsets ::
  "cab_archive \<Rightarrow> nat \<Rightarrow> string list \<Rightarrow> (string \<times> nat) list \<Rightarrow> error + (string \<times> nat) list" where
  "folder_offsets a offset [] offsets = Inr offsets"
| "folder_offsets a offset (name # rest) offsets =
     (case map_of (entries a) name of
        None \<Rightarrow> Inl (KeyError name)
      | Some f \<Rightarrow> folder_offsets a (offset + cab_len f) rest (AList.update name offset offsets))"

fun build_uncompressed_offsets ::
  "cab_archive \<Rightarrow> FolderBuild list \<Rightarrow> (string \<times> nat) list \<Rightarrow> error + (string \<times> nat) list" where
  "build_uncompressed_offsets a [] offsets = Inr offsets"
| "build_uncompressed_offsets a (folder # rest) offsets =
     (case folder_offsets a 0 (names folder) offsets of
        Inl e \<Rightarrow> Inl e
      | Inr offsets' \<Rightarrow> build_uncompressed_offsets a rest offsets')"

text \<open>The dictionary \<^verbatim>\<open>folder_index_by_name\<close> of \<open>build_ce_cab_bytes\<close>.\<close>

definition folder_index_by_name :: "FolderBuild list \<Rightarrow> (string \<times> nat) list" where
  "folder_index_by_name folder_builds =
     fold (\<lambda>(idx, folder) d. fold (\<lambda>name d'. AList.update name idx d') (names folder) d)
          (enumerate 0 folder_builds) []"

text \<open>\<^verbatim>\<open>getattr(cab_file, "_filename_win32", None) or name\<close>, encoded.\<close>

definition wire_name :: "string \<Rightarrow> cab_file \<Rightarrow> string" where
  "wire_name name f = (case filename_win32 f of None \<Rightarrow> name | Some w \<Rightarrow> if w = [] then name else w)"

fun build_cffile_blob ::
  "codec \<Rightarrow> cab_archive \<Rightarrow> string list \<Rightarrow> (string \<times> nat) list \<Rightarrow> (string \<times> nat) list \<Rightarrow> error + byte list" where
  "build_cffile_blob cd a [] offsets_by_name index_by_name = Inr []"
| "build_cffile_blob cd a (name # rest) offsets_by_name index_by_name =
     (case map_of (entries a) name of
        None \<Rightarrow> Inl (KeyError name)
      | Some f \<Rightarrow>
          (case map_of offsets_by_name name of
             None \<Rightarrow> Inl (KeyError name)
           | Some uoff \<Rightarrow>
               (case map_of index_by_name name of
                  None \<Rightarrow> Inl (KeyError name)
                | Some idx \<Rightarrow>
                    (case struct_pack FMT_CFFILE
                            [VInt (cab_len f), VInt uoff, VInt idx, VInt (unat (date_encode cd f)),
                             VInt (unat (time_encode cd f)), VInt (unat (attribs f))] of
                       Inl e \<Rightarrow> Inl e
                     | Inr entry \<Rightarrow>
                         (case build_cffile_blob cd a rest offsets_by_name index_by_name of
                            Inl e \<Rightarrow> Inl e
                          | Inr blob \<Rightarrow> Inr (entry @ latin1 (wire_name name f) @ [0] @ blob))))))"

text \<open>\<open>_build_folder_and_data_blobs\<close>: the data blocks of one folder, then the loop.\<close>

fun build_data_blocks :: "codec \<Rightarrow> nat \<Rightarrow> (byte list \<times> nat) list \<Rightarrow> error + byte list" where
  "build_data_blocks cd cb_data [] = Inr []"
| "build_data_blocks cd cb_data ((encoded, plain_size) # rest) =
     (case struct_pack [UInt 2, UInt 2] [VInt (length encoded), VInt plain_size] of
        Inl e \<Rightarrow> Inl e
      | Inr hdr \<Rightarrow>
          (case struct_pack FMT_CFDATA
                  [VInt (unat (checksum_compute cd hdr (checksum_compute cd encoded 0))),
                   VInt (length encoded), VInt plain_size] of
             Inl e \<Rightarrow> Inl e
           | Inr entry \<Rightarrow>
               (case build_data_blocks cd cb_data rest of
                  Inl e \<Rightarrow> Inl e
                | Inr blob \<Rightarrow> Inr (entry @ replicate cb_data 0 @ encoded @ blob))))"

definition block_bytes :: "nat \<Rightarrow> (byte list \<times> nat) list \<Rightarrow> nat" where
  "block_bytes cb_data bs =
     sum_list (map (\<lambda>(encoded, plain_size). struct_calcsize FMT_CFDATA + cb_data + length encoded) bs)"

fun build_folder_and_data_blobs ::
  "codec \<Rightarrow> FolderBuild list \<Rightarrow> nat \<Rightarrow> nat \<Rightarrow> nat \<Rightarrow> bool \<Rightarrow> error + byte list \<times> byte list" where
  "build_folder_and_data_blobs cd [] cursor cb_folder cb_data compress = Inr ([], [])"
| "build_folder_and_data_blobs cd (folder # rest) cursor cb_folder cb_data compress =
     (case build_data_blocks cd cb_data (blocks folder) of
        Inl e \<Rightarrow> Inl e
      | Inr data \<Rightarrow>
          (case struct_pack FMT_CFFOLDER
                  [VInt cursor, VInt (length (blocks folder)), VInt (if compress then 1 else 0)] of
             Inl e \<Rightarrow> Inl e
           | Inr entry \<Rightarrow>
               (case build_folder_and_data_blobs cd rest (cursor + block_bytes cb_data (blocks folder))
                       cb_folder cb_data compress of
                  Inl e \<Rightarrow> Inl e
                | Inr (folder_blob, data_blob) \<Rightarrow>
                    Inr (entry @ (if cb_folder \<noteq> 0 then reserve folder else []) @ folder_blob,
                         data @ data_blob))))"

definition default_template :: "cab_archive \<Rightarrow> CabLayoutTemplate" where
  "default_template a =
     \<lparr>set_id = archive_set_id a, cb_cfheader = 0, cb_cffolder = 0, cb_cfdata = 0,
      header_reserve = [], folder_reserves = [], file_order = [], file_folders = []\<rparr>"

definition use_reserve :: "CabLayoutTemplate \<Rightarrow> bool" where
  "use_reserve t = (cb_cfheader t \<noteq> 0 \<or> cb_cffolder t \<noteq> 0 \<or> cb_cfdata t \<noteq> 0 \<or> header_reserve t \<noteq> [])"

definition header_size :: "CabLayoutTemplate \<Rightarrow> nat" where
  "header_size t =
     struct_calcsize FMT_CFHEADER
       + (if use_reserve t then struct_calcsize FMT_CFHEADER_RESERVE + cb_cfheader t else 0)"

text \<open>The header with its reserve descriptor and reserve bytes, the first part of the output.\<close>

definition build_header ::
  "CabLayoutTemplate \<Rightarrow> nat \<Rightarrow> nat \<Rightarrow> nat \<Rightarrow> nat \<Rightarrow> error + byte list" where
  "build_header t cabinet_size coff_files folder_count file_count =
     (case struct_pack FMT_CFHEADER
             [VBytes MSCF, VInt cabinet_size, VInt coff_files, VInt 3, VInt 1, VInt folder_count,
              VInt file_count, VInt (if use_reserve t then 4 else 0), VInt (set_id t), VInt 0] of
        Inl e \<Rightarrow> Inl e
      | Inr header \<Rightarrow>
          if use_reserve t
          then (case struct_pack FMT_CFHEADER_RESERVE
                       [VInt (cb_cfheader t), VInt (cb_cffolder t), VInt (cb_cfdata t)] of
                  Inl e \<Rightarrow> Inl e
                | Inr descriptor \<Rightarrow>
                    Inr (header @ descriptor
                         @ take (cb_cfheader t) (header_reserve t)
                         @ replicate (cb_cfheader t - length (take (cb_cfheader t) (header_reserve t))) 0))
          else Inr header)"

definition build_ce_cab_bytes ::
  "codec \<Rightarrow> cab_archive \<Rightarrow> bool \<Rightarrow> CabLayoutTemplate option \<Rightarrow> bool \<Rightarrow> error + byte list" where
  "build_ce_cab_bytes cd a compress template sorted_output =
     (let ordered_names = order_names cd a template sorted_output
      in if ordered_names = [] then Inl (ValueError ''CAB cannot be empty'')
         else
           (let t = (case template of None \<Rightarrow> default_template a | Some t' \<Rightarrow> t')
            in case build_folders cd a ordered_names t compress of
                 Inl e \<Rightarrow> Inl e
               | Inr folder_builds \<Rightarrow>
                   if length folder_builds = 0 then Inl (ValueError ''CAB cannot be empty'')
                   else
                     (let folder_table_size =
                            length folder_builds * (struct_calcsize FMT_CFFOLDER + cb_cffolder t);
                          coff_files = header_size t + folder_table_size
                      in case build_uncompressed_offsets a folder_builds [] of
                           Inl e \<Rightarrow> Inl e
                         | Inr offsets_by_name \<Rightarrow>
                             (case build_cffile_blob cd a ordered_names offsets_by_name
                                     (folder_index_by_name folder_builds) of
                                Inl e \<Rightarrow> Inl e
                              | Inr cffile_blob \<Rightarrow>
                                  (case build_folder_and_data_blobs cd folder_builds
                                          (coff_files + length cffile_blob)
                                          (cb_cffolder t) (cb_cfdata t) compress of
                                     Inl e \<Rightarrow> Inl e
                                   | Inr (cffolder_blob, cfdata_blob) \<Rightarrow>
                                       (case build_header t
                                               (header_size t + length cffolder_blob
                                                  + length cffile_blob + length cfdata_blob)
                                               coff_files (length folder_builds)
                                               (length ordered_names) of
                                          Inl e \<Rightarrow> Inl e
                                        | Inr header \<Rightarrow>
                                            Inr (header @ cffolder_blob @ cffile_blob @ cfdata_blob)))))))"

subsection \<open>The layout parser\<close>

text \<open>The loop over the folder table: the reserves read so far, and the offset.\<close>

fun parse_folders :: "byte list \<Rightarrow> nat \<Rightarrow> nat \<Rightarrow> nat \<Rightarrow> byte list list \<Rightarrow> (byte list list \<times> nat) option" where
  "parse_folders bytes cb_folder 0 offset reserves = Some (reserves, offset)"
| "parse_folders bytes cb_folder (Suc n) offset reserves =
     (case struct_unpack_from FMT_CFFOLDER bytes offset of
        Inl e \<Rightarrow> None
      | Inr folder_entry \<Rightarrow>
          (let offset' = offset + struct_calcsize FMT_CFFOLDER;
               folder_reserve = (if cb_folder \<noteq> 0 then take cb_folder (drop offset' bytes) else [])
           in parse_folders bytes cb_folder n (offset' + cb_folder) (reserves @ [folder_reserve])))"

text \<open>The loop over the file table: the file order and the folder of each name.\<close>

fun parse_files ::
  "byte list \<Rightarrow> nat \<Rightarrow> nat \<Rightarrow> string list \<Rightarrow> (string \<times> nat) list
     \<Rightarrow> (string list \<times> (string \<times> nat) list) option" where
  "parse_files bytes 0 offset order folders = Some (order, folders)"
| "parse_files bytes (Suc n) offset order folders =
     (case struct_unpack_from FMT_CFFILE bytes offset of
        Inr [VInt usize, VInt uoff, VInt folder_idx, VInt fdate, VInt ftime, VInt fattr] \<Rightarrow>
          (let offset' = offset + struct_calcsize FMT_CFFILE
           in case find_nul bytes offset' of
                None \<Rightarrow> None
              | Some end_of_name \<Rightarrow>
                  (let name = latin1_decode (take (end_of_name - offset') (drop offset' bytes))
                   in parse_files bytes n (end_of_name + 1) (order @ [name])
                        (AList.update name folder_idx folders)))
      | _ \<Rightarrow> None)"

definition parse_cab_layout :: "byte list \<Rightarrow> CabLayoutTemplate option" where
  "parse_cab_layout bytes =
     (case struct_unpack_from FMT_CFHEADER bytes 0 of
        Inr [VBytes sig, VInt cab_size, VInt off_cffile, VInt ver_minor, VInt ver_major,
             VInt nr_folders, VInt nr_files, VInt flags, VInt sid, VInt idx_cab] \<Rightarrow>
          (if sig \<noteq> MSCF then None
           else
            (let offset = struct_calcsize FMT_CFHEADER
             in case (if flags div 4 mod 2 = 1
                      then (case struct_unpack_from FMT_CFHEADER_RESERVE bytes offset of
                              Inr [VInt cb_header, VInt cb_folder, VInt cb_data] \<Rightarrow>
                                (let offset' = offset + struct_calcsize FMT_CFHEADER_RESERVE
                                 in Some (cb_header, cb_folder, cb_data,
                                          take cb_header (drop offset' bytes), offset' + cb_header))
                            | _ \<Rightarrow> None)
                      else Some (0, 0, 0, [], offset)) of
                  None \<Rightarrow> None
                | Some (cb_header, cb_folder, cb_data, reserve_bytes, offset1) \<Rightarrow>
                    (case parse_folders bytes cb_folder nr_folders offset1 [] of
                       None \<Rightarrow> None
                     | Some (reserves, offset2) \<Rightarrow>
                         (case parse_files bytes nr_files off_cffile [] [] of
                            None \<Rightarrow> None
                          | Some (order, folders) \<Rightarrow>
                              Some \<lparr>set_id = sid, cb_cfheader = cb_header, cb_cffolder = cb_folder,
                                    cb_cfdata = cb_data, header_reserve = reserve_bytes,
                                    folder_reserves = reserves, file_order = order,
                                    file_folders = folders\<rparr>))))
      | _ \<Rightarrow> None)"

subsection \<open>The ordering as the specification words it\<close>

text \<open>
  The specification's step 1 of the writer: the template's file order, keeping only the
  names still present in the archive, then the remaining archive names, sorted ascending
  for deterministic output, else in the archive's iteration order.
\<close>

definition spec_order_names :: "cab_archive \<Rightarrow> CabLayoutTemplate option \<Rightarrow> bool \<Rightarrow> string list" where
  "spec_order_names a template sorted_output =
     (let keys = map fst (entries a);
          template_order = (case template of None \<Rightarrow> [] | Some t \<Rightarrow> file_order t);
          kept = filter (\<lambda>n. n \<in> set keys) template_order;
          remaining = filter (\<lambda>n. n \<notin> set template_order) keys
      in kept @ (if sorted_output then sort remaining else remaining))"

text \<open>A list without the later repetitions of its elements.\<close>

function first_occurrences :: "'a list \<Rightarrow> 'a list" where
  "first_occurrences [] = []"
| "first_occurrences (x # xs) = x # first_occurrences (removeAll x xs)"
  by pat_completeness auto
termination
  by (relation "measure length") (auto simp: less_Suc_eq_le length_removeAll_less_eq)

text \<open>
  The bytes that \<open>_build_folder_and_data_blobs\<close> emits for one block when the packing
  succeeds: the CFDATA record (checksum, encoded size, plain size), the data reserve,
  and the encoded bytes.
\<close>

definition cfdata_record :: "codec \<Rightarrow> nat \<Rightarrow> byte list \<times> nat \<Rightarrow> byte list" where
  "cfdata_record cd cb_data b =
     (case b of
        (encoded, plain_size) \<Rightarrow>
          le_bytes 4 (unat (checksum_compute cd (le_bytes 2 (length encoded) @ le_bytes 2 plain_size)
                              (checksum_compute cd encoded 0)))
          @ le_bytes 2 (length encoded) @ le_bytes 2 plain_size
          @ replicate cb_data 0 @ encoded)"

subsection \<open>A concrete editor\<close>

text \<open>
  A loaded editor used to run the operations: an archive of three files and their
  \<^verbatim>\<open>_setup.xml\<close>, whose tree lists the three files under the directory \<^verbatim>\<open>\Windows\<close>
  and carries \<^verbatim>\<open>NumFiles\<close>.  The collaborators are simple stand-ins: the serialiser
  writes the root's tag and the number of elements below it, \<^verbatim>\<open>secure_filename\<close> is the identity, a
  path's stem and suffix are cut at its first dot, a file's bytes are its name, no
  bytes parse as a CAB, a new entry has no attribute flag set, and a path expression with
  a quoted directory is refused.
\<close>

definition demo_env :: env where
  "demo_env =
     \<lparr>read_bytes = (\<lambda>p. Some (latin1 p)),
      cab_parse = (\<lambda>b. None),
      xml_parse = (\<lambda>encoding b. None),
      xml_tostring = (\<lambda>root. latin1 (tag root) @ [of_nat (length (descendants root))]),
      archive_save = (\<lambda>a compress sorted. Inr (concat (map (\<lambda>(n, f). latin1 n @ buf_or_empty f) (entries a)))),
      signature_status = (\<lambda>p. Inr []),
      secure_filename = (\<lambda>n. n),
      path_name = (\<lambda>n. n),
      path_stem = takeWhile (\<lambda>c. c \<noteq> CHR ''.''),
      path_suffix = dropWhile (\<lambda>c. c \<noteq> CHR ''.''),
      fresh_attribs = 0x00,
      find_quoted = (\<lambda>fileop directory. Inl (SyntaxError ''invalid predicate''))\<rparr>"

definition demo_file_node :: "string \<Rightarrow> string \<Rightarrow> xml" where
  "demo_file_node display source =
     Element ''characteristic'' [(''type'', display), (''translation'', ''install'')]
       [Element ''characteristic'' [(''type'', ''Extract'')]
          [Element ''parm'' [(''name'', ''Source''), (''value'', source)] []]]"

definition demo_manifest :: "string \<Rightarrow> (string \<times> string) list \<Rightarrow> xml" where
  "demo_manifest numfiles files =
     Element ''wap-provisioningdoc'' []
       [Element ''characteristic'' [(''type'', ''Install'')]
          [Element ''parm'' [(''name'', ''NumFiles''), (''value'', numfiles)] []],
        Element ''characteristic'' [(''type'', ''FileOperation'')]
          [Element ''characteristic'' [(''type'', CHR 0x5C # ''Windows''), (''translation'', ''install'')]
             (map (\<lambda>(display, source). demo_file_node display source) files)]]"

definition demo_root :: xml where
  "demo_root =
     demo_manifest ''3''
       [(''Alpha.txt'', ''ALPHA~1.TXT''), (''Beta.txt'', ''BETA~1.TXT''), (''Gamma.txt'', ''GAMMA~1.TXT'')]"

definition demo_file :: "byte list \<Rightarrow> cab_file" where
  "demo_file payload =
     \<lparr>buf = Some payload, date = Some (2020, 1, 2), time = Some (3, 4, 6),
      attribs = 0x01, filename_win32 = None\<rparr>"

definition demo_archive :: cab_archive where
  "demo_archive =
     \<lparr>entries =
        [(''_setup.xml'', demo_file [0x3C, 0x3E]),
         (''ALPHA~1.TXT'', demo_file [0x61]),
         (''BETA~1.TXT'', demo_file [0x62, 0x62]),
         (''GAMMA~1.TXT'', demo_file [0x63, 0x63, 0x63])],
      archive_set_id = 7\<rparr>"

definition demo_editor :: editor where
  "demo_editor =
     rebuild_index
       (new_editor\<lparr>path := Some ''demo.cab'', loaded_name := ''demo'',
                    archive := Some demo_archive, xml_root := Some demo_root\<rparr>)"

text \<open>The same archive loaded without a manifest (no \<^verbatim>\<open>_setup.xml\<close> entry).\<close>

definition plain_archive :: cab_archive where
  "plain_archive =
     \<lparr>entries = [(''ALPHA~1.TXT'', demo_file [0x61]), (''BETA~1.TXT'', demo_file [0x62, 0x62])],
      archive_set_id = 7\<rparr>"

definition plain_editor :: editor where
  "plain_editor =
     rebuild_index
       (new_editor\<lparr>path := Some ''plain.cab'', loaded_name := ''plain'', archive := Some plain_archive\<rparr>)"

text \<open>A manifest without the \<^verbatim>\<open>FileOperation\<close> section: it has no insertion point.\<close>

definition bare_root :: xml where
  "bare_root =
     Element ''wap-provisioningdoc'' []
       [Element ''characteristic'' [(''type'', ''Install'')]
          [Element ''parm'' [(''name'', ''NumFiles''), (''value'', ''0'')] []]]"

definition bare_editor :: editor where
  "bare_editor =
     rebuild_index
       (new_editor\<lparr>path := Some ''bare.cab'', loaded_name := ''bare'',
                    archive := Some plain_archive, xml_root := Some bare_root\<rparr>)"

definition demo_now :: datetime where
  "demo_now = ((2026, 11, 3), (10, 20, 30))"

definition demo_upload :: upload where
  "demo_upload = \<lparr>filename = Some ''Delta.txt'', content = [0x64]\<rparr>"

text \<open>The keys of the editor's archive, in iteration order.\<close>

definition archive_keys :: "editor \<Rightarrow> string list" where
  "archive_keys ed = (case archive ed of None \<Rightarrow> [] | Some a \<Rightarrow> map fst (entries a))"

text \<open>The value of \<^verbatim>\<open>NumFiles\<close> in the editor's manifest.\<close>

definition editor_numfiles :: "editor \<Rightarrow> string option" where
  "editor_numfiles ed = (case xml_root ed of None \<Rightarrow> None | Some root \<Rightarrow> numfiles_value root)"

text \<open>The entry that the editor's archive holds under a name.\<close>

definition editor_entry :: "editor \<Rightarrow> string \<Rightarrow> cab_file option" where
  "editor_entry ed name = (case archive ed of None \<Rightarrow> None | Some a \<Rightarrow> map_of (entries a) name)"

subsection \<open>A concrete codec and template\<close>

text \<open>
  Stand-ins for the writer's collaborators, used to run it: the packed MS-DOS date and
  time of an entry, DEFLATE that emits one stored block (a valid raw stream for a chunk
  below 65536 bytes), a checksum that adds the bytes to the seed, and a set that
  iterates in the reverse of the order in which its elements were inserted.
\<close>

definition dos_date :: "cab_file \<Rightarrow> 16 word" where
  "dos_date f = (case date f of None \<Rightarrow> 0 | Some (y, m, d) \<Rightarrow> of_nat ((y - 1980) * 512 + m * 32 + d))"

definition dos_time :: "cab_file \<Rightarrow> 16 word" where
  "dos_time f = (case time f of None \<Rightarrow> 0 | Some (h, mi, s) \<Rightarrow> of_nat (h * 2048 + mi * 32 + s div 2))"

definition stored_deflate :: "byte list \<Rightarrow> byte list" where
  "stored_deflate plain =
     [0x01] @ le_bytes 2 (length plain) @ le_bytes 2 (65535 - length plain) @ plain"

definition byte_sum :: "byte list \<Rightarrow> 32 word \<Rightarrow> 32 word" where
  "byte_sum bs seed = fold (\<lambda>b acc. acc + ucast b) bs seed"

definition demo_codec :: codec where
  "demo_codec =
     \<lparr>deflate = stored_deflate, checksum_compute = byte_sum,
      date_encode = dos_date, time_encode = dos_time, set_iteration = rev\<rparr>"

text \<open>
  A layout with a two-byte header reserve and one reserve byte per folder, listing the
  two files of \<open>plain_archive\<close> in the order Beta, Alpha, each in a folder of its own.
\<close>

definition demo_template :: CabLayoutTemplate where
  "demo_template =
     \<lparr>set_id = 7, cb_cfheader = 2, cb_cffolder = 1, cb_cfdata = 0,
      header_reserve = [0xAA, 0xBB], folder_reserves = [[0x11], [0x22]],
      file_order = [''BETA~1.TXT'', ''ALPHA~1.TXT''],
      file_folders = [(''BETA~1.TXT'', 0), (''ALPHA~1.TXT'', 1)]\<rparr>"

text \<open>An environment whose archive writer is the CE writer without a template.\<close>

definition ce_env :: env where
  "ce_env = demo_env\<lparr>archive_save := (\<lambda>a compress sorted. build_ce_cab_bytes demo_codec a compress None sorted)\<rparr>"

text \<open>An editor whose archive holds the manifest only.\<close>

definition manifest_archive :: cab_archive where
  "manifest_archive = \<lparr>entries = [(''_setup.xml'', demo_file [0x3C, 0x3E])], archive_set_id = 7\<rparr>"

definition manifest_editor :: editor where
  "manifest_editor =
     rebuild_index
       (new_editor\<lparr>path := Some ''manifest.cab'', loaded_name := ''manifest'',
                    archive := Some manifest_archive, xml_root := Some bare_root\<rparr>)"

text \<open>Two readings of the clock, two seconds apart.\<close>

definition demo_later :: datetime where
  "demo_later = ((2026, 11, 3), (10, 20, 32))"

text \<open>
  The bytes that the writer gives for \<open>plain_archive\<close> with the template and compression:
  header with reserve descriptor and reserve, two folder records with their reserve byte,
  two file records, two data blocks.
\<close>

definition demo_cab :: "byte list" where
  "demo_cab =
     [77, 83, 67, 70, 0, 0, 0, 0, 148, 0, 0, 0, 0, 0, 0, 0, 60, 0, 0, 0, 0, 0, 0, 0,
      3, 1, 2, 0, 2, 0, 4, 0, 7, 0, 0, 0, 2, 0, 1, 0, 170, 187,
      115, 0, 0, 0, 1, 0, 1, 0, 17, 132, 0, 0, 0, 1, 0, 1, 0, 34,
      2, 0, 0, 0, 0, 0, 0, 0, 0, 0, 34, 80, 131, 24, 1, 0,
      66, 69, 84, 65, 126, 49, 46, 84, 88, 84, 0,
      1, 0, 0, 0, 0, 0, 0, 0, 1, 0, 34, 80, 131, 24, 1, 0,
      65, 76, 80, 72, 65, 126, 49, 46, 84, 88, 84, 0,
      92, 3, 0, 0, 9, 0, 2, 0, 67, 75, 1, 2, 0, 253, 255, 98, 98,
      247, 2, 0, 0, 8, 0, 1, 0, 67, 75, 1, 1, 0, 254, 255, 97]"

text \<open>The same archive written without a template.\<close>

definition plain_cab :: "byte list" where
  "plain_cab =
     [77, 83, 67, 70, 0, 0, 0, 0, 140, 0, 0, 0, 0, 0, 0, 0, 52, 0, 0, 0, 0, 0, 0, 0,
      3, 1, 2, 0, 2, 0, 0, 0, 7, 0, 0, 0,
      107, 0, 0, 0, 1, 0, 1, 0, 123, 0, 0, 0, 1, 0, 1, 0,
      1, 0, 0, 0, 0, 0, 0, 0, 0, 0, 34, 80, 131, 24, 1, 0,
      65, 76, 80, 72, 65, 126, 49, 46, 84, 88, 84, 0,
      2, 0, 0, 0, 0, 0, 0, 0, 1, 0, 34, 80, 131, 24, 1, 0,
      66, 69, 84, 65, 126, 49, 46, 84, 88, 84, 0,
      247, 2, 0, 0, 8, 0, 1, 0, 67, 75, 1, 1, 0, 254, 255, 97,
      92, 3, 0, 0, 9, 0, 2, 0, 67, 75, 1, 2, 0, 253, 255, 98, 98]"

text \<open>
  The bytes for the archive of \<open>manifest_editor\<close> after the resynchronisation, stored;
  the argument is the low byte of the packed time of the \<^verbatim>\<open>_setup.xml\<close> entry.
\<close>

definition manifest_cab :: "byte \<Rightarrow> byte list" where
  "manifest_cab packed_time =
     [77, 83, 67, 70, 0, 0, 0, 0, 99, 0, 0, 0, 0, 0, 0, 0, 44, 0, 0, 0, 0, 0, 0, 0,
      3, 1, 1, 0, 1, 0, 0, 0, 7, 0, 0, 0,
      71, 0, 0, 0, 1, 0, 0, 0,
      20, 0, 0, 0, 0, 0, 0, 0, 0, 0, 99, 93, packed_time, 82, 0, 0,
      95, 115, 101, 116, 117, 112, 46, 120, 109, 108, 0,
      252, 7, 0, 0, 20, 0, 20, 0,
      119, 97, 112, 45, 112, 114, 111, 118, 105, 115, 105, 111, 110, 105, 110, 103, 100, 111, 99, 2]"

section \<open>Evaluation\<close>

text \<open>
  The recursive equations of the two loops are unfolded on demand only; the definitions
  of the model are collected for the evaluation of concrete runs.
\<close>

declare str_nat.simps [simp del]
declare first_candidate.simps [simp del]

declare chunkify.simps [simp del]

lemmas text_defs = upper_letters_def lower_letters_def digit_chars_def latin1_upper_letters_def
  latin1_lower_letters_def latin1_other_alnum_def lower_char_def upper_char_def lower_def upper_def
  narrow_def lower_wide_def isalnum_def isalnum_wide_def is_space_def strip_def startswith_def zfill_def

lemmas xml_defs = attrib_get_def attrib_set_def append_child_def remove_child_def step_match_def
  child_characteristics_def find_child_def find_grandchild_def findall_descendant_characteristics_def
  find_extract_def find_fileop_def iter_file_nodes_def remove_xml_file_node_def append_xml_file_node_def
  resolve_target_parent_def find_numfiles_def numfiles_value_def

lemmas demo_xml_defs = demo_file_node_def demo_manifest_def demo_root_def bare_root_def

lemma str_nat_digit: "n < 10 \<Longrightarrow> str_nat n = [digit_chars ! n]"
  by (simp add: str_nat.simps)

lemma str_nat_more: "\<not> n < 10 \<Longrightarrow> str_nat n = str_nat (n div 10) @ [digit_chars ! (n mod 10)]"
  by (subst str_nat.simps) simp

text \<open>The case mapping and the white space reach the Latin-1 letters and spaces.\<close>

lemma lower_latin1_example:
  "lower [CHR 0xC9, CHR ''C'', CHR 0xD7, CHR 0xDF] = [CHR 0xE9, CHR ''c'', CHR 0xD7, CHR 0xDF]"
  by (simp add: text_defs)

lemma upper_latin1_example:
  "upper [CHR 0xE9, CHR ''c'', CHR 0xDF, CHR 0xB5, CHR 0xFF]
     = [Latin1 (CHR 0xC9), Latin1 (CHR ''C''), Latin1 (CHR ''S''), Latin1 (CHR ''S''),
        CapitalMu, CapitalYDiaeresis]"
  by (simp add: text_defs)

lemma strip_latin1_example:
  "strip ([CHR 0xA0] @ ''Report'' @ [CHR 0x85, CHR '' '']) = ''Report''"
  by (simp add: text_defs)

section \<open>Properties of the editor\<close>

subsection \<open>What the helpers leave alone\<close>

lemma rebuild_index_frame:
  "archive (rebuild_index ed) = archive ed"
  "xml_root (rebuild_index ed) = xml_root ed"
  "path (rebuild_index ed) = path ed"
  "loaded_name (rebuild_index ed) = loaded_name ed"
  "setup_encoding (rebuild_index ed) = setup_encoding ed"
  "signature_before (rebuild_index ed) = signature_before ed"
  by (simp_all add: rebuild_index_def Let_def split: option.splits)

lemma update_numfiles_frame:
  "archive (update_numfiles ed) = archive ed"
  "records (update_numfiles ed) = records ed"
  "path (update_numfiles ed) = path ed"
  "loaded_name (update_numfiles ed) = loaded_name ed"
  by (simp_all add: update_numfiles_def split: option.splits prod.splits)

lemma sync_setup_xml_frame:
  "xml_root (sync_setup_xml env now ed) = xml_root ed"
  "records (sync_setup_xml env now ed) = records ed"
  "path (sync_setup_xml env now ed) = path ed"
  "loaded_name (sync_setup_xml env now ed) = loaded_name ed"
  by (simp_all add: sync_setup_xml_def split: option.splits)

lemma require_archive_Inr:
  "require_archive ed = Inr a \<longleftrightarrow> archive ed = Some a \<and> entries a \<noteq> []"
  by (auto simp: require_archive_def split: option.splits)

lemma map_fst_update_present:
  "map_of al k \<noteq> None \<Longrightarrow> map fst (AList.update k v al) = map fst al"
  by (induction al) auto

lemma rebuild_index_idem: "rebuild_index (rebuild_index ed) = rebuild_index ed"
  by (simp add: rebuild_index_def Let_def split: option.splits)

subsection \<open>The concrete editors\<close>

lemma demo_editor_fields:
  "archive demo_editor = Some demo_archive"
  "xml_root demo_editor = Some demo_root"
  "path demo_editor = Some ''demo.cab''"
  "loaded_name demo_editor = ''demo''"
  by (simp_all add: demo_editor_def rebuild_index_frame new_editor_def)

lemma plain_editor_fields:
  "archive plain_editor = Some plain_archive"
  "xml_root plain_editor = None"
  by (simp_all add: plain_editor_def rebuild_index_frame new_editor_def)

lemma bare_editor_fields:
  "archive bare_editor = Some plain_archive"
  "xml_root bare_editor = Some bare_root"
  by (simp_all add: bare_editor_def rebuild_index_frame new_editor_def)

lemma demo_entries_nonempty:
  "entries demo_archive \<noteq> []" "entries plain_archive \<noteq> []"
  by (simp_all add: demo_archive_def plain_archive_def)

lemma demo_require_archive:
  "require_archive demo_editor = Inr demo_archive"
  "require_archive plain_editor = Inr plain_archive"
  "require_archive bare_editor = Inr plain_archive"
  by (simp_all add: require_archive_Inr demo_editor_fields plain_editor_fields bare_editor_fields
      demo_entries_nonempty)

text \<open>
  With a manifest, the index holds one record for every enumerated file node that has a
  display name and a source name found in the archive.
\<close>

lemma length_concat_singletons:
  "length (concat (map (\<lambda>x. if P x then [g x] else []) xs)) = length (filter P xs)"
  by (induction xs) auto

lemma records_count:
  assumes "archive ed = Some a" and "entries a \<noteq> []" and "xml_root ed = Some root"
  shows "length (records (rebuild_index ed))
           = length (filter (\<lambda>(parent, file_node, extract).
                               attrib_get file_node ''type'' [] \<noteq> []
                               \<and> attrib_get extract ''value'' [] \<noteq> []
                               \<and> map_of (entries a) (attrib_get extract ''value'' []) \<noteq> None)
                            (iter_file_nodes root))"
proof -
  have "records (rebuild_index ed)
          = concat (map (\<lambda>x. if (\<lambda>(parent, file_node, extract).
                                     attrib_get file_node ''type'' [] \<noteq> []
                                     \<and> attrib_get extract ''value'' [] \<noteq> []
                                     \<and> map_of (entries a) (attrib_get extract ''value'' []) \<noteq> None) x
                               then [(\<lambda>(parent, file_node, extract).
                                        \<lparr>display_name = attrib_get file_node ''type'' [],
                                         source_name = attrib_get extract ''value'' [],
                                         size_bytes = length (buf_or_empty (the (map_of (entries a) (attrib_get extract ''value'' [])))),
                                         modified = format_cabfile_time (the (map_of (entries a) (attrib_get extract ''value'' []))),
                                         parent_type = attrib_get parent ''type'' []\<rparr>) x]
                               else [])
                        (iter_file_nodes root))"
    using assms
    by (auto simp: rebuild_index_def Let_def split_def intro!: arg_cong [where f = concat] split: option.splits)
  then show ?thesis
    by (simp only: length_concat_singletons)
qed

text \<open>Facts about the concrete manifests.\<close>

lemma demo_manifest_numfiles:
  "find_numfiles (demo_manifest n files)
     = Some ([0, 0], Element ''parm'' [(''name'', ''NumFiles''), (''value'', n)] [])"
  "numfiles_value (demo_manifest n files) = Some n"
  "update_at [0, 0] (attrib_set ''value'' v) (demo_manifest n files) = demo_manifest v files"
  by (simp_all add: xml_defs demo_xml_defs)

lemma demo_sources:
  "map (\<lambda>(parent, file_node, extract). lower (attrib_get extract ''value'' [])) (iter_file_nodes demo_root)
     = [''alpha~1.txt'', ''beta~1.txt'', ''gamma~1.txt'']"
  by code_simp

lemma demo_new_source_name:
  "generate_source_name demo_env ''Delta.txt''
     (map (\<lambda>(n, f). lower n) (entries demo_archive)) 0 = Inr ''DELTA~1.TXT''"
  "generate_source_name demo_env ''Delta.txt''
     (map (\<lambda>(n, f). lower n) (entries plain_archive)) 0 = Inr ''DELTA~1.TXT''"
  by code_simp+

lemma demo_final_name:
  "''Delta.txt'' = (if [] \<noteq> [] then strip []
                    else secure_filename demo_env (case filename demo_upload of None \<Rightarrow> [] | Some n \<Rightarrow> n))"
  by (simp add: demo_env_def demo_upload_def)

subsection \<open>Removing a file\<close>

lemma extracts_agree:
  "map (\<lambda>(p, i, e). e)
       (concat (map (\<lambda>(p, parent).
                  concat (map (\<lambda>(i, file_node).
                            (case find_extract file_node of
                               None \<Rightarrow> []
                             | Some extract \<Rightarrow> [(p, i, extract)]))
                          (child_characteristics parent)))
                ps))
   = map (\<lambda>(parent, file_node, e). e)
       (concat (map (\<lambda>(p, parent).
                    concat (map (\<lambda>(i, file_node).
                              (case find_extract file_node of
                                 None \<Rightarrow> []
                               | Some extract \<Rightarrow> [(parent, file_node, extract)]))
                            (child_characteristics parent)))
                  ps))"
  by (simp add: map_concat o_def split_def option.case_distrib cong: option.case_cong)

lemma find_not_None: "(List.find P xs \<noteq> None) = (\<exists>x \<in> set xs. P x)"
  by (auto simp: find_None_iff)

text \<open>
  \<open>remove_xml_file_node\<close> removes a node exactly when one of the file nodes that
  \<open>iter_file_nodes\<close> enumerates carries the source name, compared in lower case.
\<close>

lemma remove_xml_file_node_found:
  "fst (remove_xml_file_node root name)
     \<longleftrightarrow> (\<exists>(parent, file_node, extract) \<in> set (iter_file_nodes root).
            lower (attrib_get extract ''value'' []) = lower name)"
proof (cases "find_fileop root")
  case None
  then show ?thesis by (simp add: remove_xml_file_node_def iter_file_nodes_def)
next
  case (Some kf)
  obtain k fileop where kf: "kf = (k, fileop)" by (cases kf)
  define P where "P = (\<lambda>e. lower (attrib_get e ''value'' []) = lower name)"
  define cands where "cands = concat (map (\<lambda>(p, parent).
                  concat (map (\<lambda>(i, file_node).
                            (case find_extract file_node of
                               None \<Rightarrow> []
                             | Some extract \<Rightarrow> [(p, i, extract)]))
                          (child_characteristics parent)))
                (findall_descendant_characteristics fileop))"
  have agree: "map (\<lambda>(p, i, e). e) cands = map (\<lambda>(parent, file_node, e). e) (iter_file_nodes root)"
    using Some kf unfolding cands_def iter_file_nodes_def
    by (simp only: extracts_agree option.case prod.case)
  have "fst (remove_xml_file_node root name) \<longleftrightarrow> List.find (\<lambda>(p, i, e). P e) cands \<noteq> None"
    using Some kf unfolding cands_def P_def
    by (simp add: remove_xml_file_node_def split: option.splits prod.splits)
  also have "\<dots> \<longleftrightarrow> (\<exists>x \<in> set cands. (\<lambda>(p, i, e). P e) x)"
    by (rule find_not_None)
  also have "\<dots> \<longleftrightarrow> (\<exists>e \<in> set (map (\<lambda>(p, i, e). e) cands). P e)"
    by (simp add: split_def)
  also have "\<dots> \<longleftrightarrow> (\<exists>e \<in> set (map (\<lambda>(parent, file_node, e). e) (iter_file_nodes root)). P e)"
    by (simp only: agree)
  also have "\<dots> \<longleftrightarrow> (\<exists>(parent, file_node, extract) \<in> set (iter_file_nodes root). P extract)"
    by (simp add: split_def)
  finally show ?thesis unfolding P_def .
qed

lemma remove_xml_file_node_unchanged:
  "\<not> fst (remove_xml_file_node root name) \<Longrightarrow> snd (remove_xml_file_node root name) = root"
  by (auto simp: remove_xml_file_node_def split: option.splits prod.splits)

text \<open>
  C6, as the claim states it, fails in its last part: with no manifest, removing a name
  that is not an archive key still reports success.
\<close>

theorem remove_file_missing_key_reports_success:
  "require_archive plain_editor = Inr plain_archive
   \<and> xml_root plain_editor = None
   \<and> \<not> archive_contains plain_archive ''NOPE.TXT''
   \<and> remove_file demo_env demo_now plain_editor ''NOPE.TXT'' = (Inr (), plain_editor)"
proof -
  have absent: "\<not> archive_contains plain_archive ''NOPE.TXT''"
    by (simp add: archive_contains_def plain_archive_def)
  have "remove_file demo_env demo_now plain_editor ''NOPE.TXT'' = (Inr (), rebuild_index plain_editor)"
    by (simp add: remove_file_def demo_require_archive plain_editor_fields absent)
  moreover have "rebuild_index plain_editor = plain_editor"
    by (simp add: plain_editor_def rebuild_index_idem)
  ultimately show ?thesis
    by (simp add: demo_require_archive plain_editor_fields absent)
qed

text \<open>
  C6, amended.  On a loaded editor \<open>remove_file\<close> fails, with the \<^verbatim>\<open>KeyError\<close> that
  reports the manifest mismatch, exactly when a manifest is present and no file node's
  \<^verbatim>\<open>Extract/Source\<close> value equals the source name in lower case; in every other case it
  returns normally.  With no manifest it therefore succeeds whether or not the key
  existed, and for a name that is not an archive key it leaves the archive as it was.
\<close>

theorem remove_file_fails_iff_manifest_mismatch:
  assumes "require_archive ed = Inr a"
  shows "(fst (remove_file env now ed name) = Inl (KeyError (''No matching _setup.xml entry for '' @ name))
            \<longleftrightarrow> (\<exists>root. xml_root ed = Some root
                  \<and> \<not> (\<exists>(parent, file_node, extract) \<in> set (iter_file_nodes root).
                          lower (attrib_get extract ''value'' []) = lower name)))
       \<and> (fst (remove_file env now ed name) = Inr ()
            \<longleftrightarrow> \<not> (\<exists>root. xml_root ed = Some root
                  \<and> \<not> (\<exists>(parent, file_node, extract) \<in> set (iter_file_nodes root).
                          lower (attrib_get extract ''value'' []) = lower name)))
       \<and> (xml_root ed = None \<longrightarrow> \<not> archive_contains a name
            \<longrightarrow> archive (snd (remove_file env now ed name)) = archive ed)"
proof (cases "xml_root ed")
  case None
  then show ?thesis
    using assms by (simp add: remove_file_def Let_def rebuild_index_frame)
next
  case (Some root)
  obtain removed root' where rm: "remove_xml_file_node root name = (removed, root')"
    by (cases "remove_xml_file_node root name")
  have run: "fst (remove_file env now ed name)
               = (if fst (remove_xml_file_node root name) then Inr ()
                  else Inl (KeyError (''No matching _setup.xml entry for '' @ name)))"
    using assms Some rm by (simp add: remove_file_def Let_def)
  show ?thesis
    using Some by (simp add: run remove_xml_file_node_found)
qed

theorem remove_file_fails_iff_manifest_mismatch_witness:
  "require_archive demo_editor = Inr demo_archive
   \<and> fst (remove_file demo_env demo_now demo_editor ''nope.txt'')
       = Inl (KeyError ''No matching _setup.xml entry for nope.txt'')
   \<and> fst (remove_file demo_env demo_now demo_editor ''beta~1.txt'') = Inr ()"
proof -
  note h = demo_require_archive(1) and root = demo_editor_fields(2)
  have no: "\<not> (\<exists>(parent, file_node, extract) \<in> set (iter_file_nodes demo_root).
               lower (attrib_get extract ''value'' []) = lower ''nope.txt'')"
  proof -
    have "lower ''nope.txt'' \<notin> set (map (\<lambda>(parent, file_node, extract). lower (attrib_get extract ''value'' []))
                   (iter_file_nodes demo_root))"
      unfolding demo_sources by code_simp
    then show ?thesis by force
  qed
  have yes: "\<exists>(parent, file_node, extract) \<in> set (iter_file_nodes demo_root).
               lower (attrib_get extract ''value'' []) = lower ''beta~1.txt''"
  proof -
    have "lower ''beta~1.txt'' \<in> set (map (\<lambda>(parent, file_node, extract). lower (attrib_get extract ''value'' []))
                   (iter_file_nodes demo_root))"
      unfolding demo_sources by code_simp
    then show ?thesis by force
  qed
  from remove_file_fails_iff_manifest_mismatch [OF h, of demo_env demo_now "''nope.txt''"]
       remove_file_fails_iff_manifest_mismatch [OF h, of demo_env demo_now "''beta~1.txt''"]
       h root no yes
  show ?thesis by simp
qed

subsection \<open>The paths through \<open>remove_file\<close> and \<open>add_file\<close>\<close>

text \<open>The editor that each path of the two mutations returns, with its result.\<close>

lemma remove_file_mismatch_state:
  assumes "require_archive ed = Inr a"
    and "xml_root ed = Some root"
    and "\<not> fst (remove_xml_file_node root name)"
  shows "remove_file env now ed name
           = (Inl (KeyError (''No matching _setup.xml entry for '' @ name)),
              if archive_contains a name then ed\<lparr>archive := Some (archive_del name a)\<rparr> else ed)"
  using assms by (cases "remove_xml_file_node root name") (simp add: remove_file_def Let_def)

lemma remove_file_success_state:
  assumes "require_archive ed = Inr a"
    and "xml_root ed = Some root"
    and "remove_xml_file_node root name = (True, root')"
    and "find_numfiles root' = Some (p, parm)"
  shows "remove_file env now ed name
           = (Inr (),
              rebuild_index
                (sync_setup_xml env now
                   ((if archive_contains a name then ed\<lparr>archive := Some (archive_del name a)\<rparr> else ed)
                      \<lparr>xml_root := Some (update_at p (attrib_set ''value'' (str_nat (length (records ed)))) root')\<rparr>)))"
  using assms by (simp add: remove_file_def Let_def update_numfiles_def)

lemma add_file_no_target_state:
  assumes "require_archive ed = Inr a"
    and "content up \<noteq> []"
    and "final = (if display \<noteq> [] then strip display
                  else secure_filename env (case filename up of None \<Rightarrow> [] | Some n \<Rightarrow> n))"
    and "final \<noteq> []"
    and "generate_source_name env final (map (\<lambda>(n, f). lower n) (entries a)) timestamp = Inr sname"
    and "xml_root ed = Some root"
    and "resolve_target_parent env root directory = Inr None"
  shows "add_file env now timestamp ed up display directory
           = (Inl (ValueError ''Could not determine insertion directory in _setup.xml''),
              ed\<lparr>archive := Some (archive_set sname (CabFile env (content up) now) a)\<rparr>)"
  using assms by (simp add: add_file_def Let_def)

lemma add_file_success_state:
  assumes "require_archive ed = Inr a"
    and "content up \<noteq> []"
    and "final = (if display \<noteq> [] then strip display
                  else secure_filename env (case filename up of None \<Rightarrow> [] | Some n \<Rightarrow> n))"
    and "final \<noteq> []"
    and "generate_source_name env final (map (\<lambda>(n, f). lower n) (entries a)) timestamp = Inr sname"
    and "xml_root ed = Some root"
    and "resolve_target_parent env root directory = Inr (Some target)"
    and "find_numfiles (append_xml_file_node root target final sname) = Some (p, parm)"
  shows "add_file env now timestamp ed up display directory
           = (Inr (),
              rebuild_index
                (sync_setup_xml env now
                   (ed\<lparr>archive := Some (archive_set sname (CabFile env (content up) now) a),
                       xml_root := Some (update_at p (attrib_set ''value'' (str_nat (length (records ed))))
                                           (append_xml_file_node root target final sname))\<rparr>)))"
  using assms by (simp add: add_file_def Let_def update_numfiles_def)

subsection \<open>Failure after a partial mutation\<close>

text \<open>
  Validation failures that are found before anything is written leave the editor as it
  was: an empty payload in \<open>add_file\<close>, and every failure of \<open>update_file\<close>.
\<close>

lemma add_file_empty_payload_unchanged:
  "content up = [] \<Longrightarrow> snd (add_file env now timestamp ed up display directory) = ed"
  by (simp add: add_file_def Let_def split: sum.splits)

lemma update_file_failure_unchanged:
  "fst (update_file env now ed name up) \<noteq> Inr () \<Longrightarrow> snd (update_file env now ed name up) = ed"
  by (auto simp: update_file_def Let_def split: sum.splits if_splits)

text \<open>
  C1.  The claim fails on the code when the failure is a manifest mismatch:
  \<open>remove_file\<close> deletes the archive entry before it looks for the manifest node, and
  \<open>add_file\<close> inserts the new entry before it resolves the insertion point.  Removing
  \<^verbatim>\<open>_setup.xml\<close> (an archive key that no manifest node names) fails and leaves the
  archive without the entry; adding a file to an archive whose manifest has no
  \<^verbatim>\<open>FileOperation\<close> section fails and leaves the new entry in the archive.
\<close>

theorem failed_mutation_changes_archive:
  "archive_keys demo_editor = [''_setup.xml'', ''ALPHA~1.TXT'', ''BETA~1.TXT'', ''GAMMA~1.TXT'']
   \<and> fst (remove_file demo_env demo_now demo_editor ''_setup.xml'')
       = Inl (KeyError ''No matching _setup.xml entry for _setup.xml'')
   \<and> archive_keys (snd (remove_file demo_env demo_now demo_editor ''_setup.xml''))
       = [''ALPHA~1.TXT'', ''BETA~1.TXT'', ''GAMMA~1.TXT'']
   \<and> archive_keys bare_editor = [''ALPHA~1.TXT'', ''BETA~1.TXT'']
   \<and> fst (add_file demo_env demo_now 0 bare_editor demo_upload [] [])
       = Inl (ValueError ''Could not determine insertion directory in _setup.xml'')
   \<and> archive_keys (snd (add_file demo_env demo_now 0 bare_editor demo_upload [] []))
       = [''ALPHA~1.TXT'', ''BETA~1.TXT'', ''DELTA~1.TXT'']"
proof -
  have no_node: "\<not> fst (remove_xml_file_node demo_root ''_setup.xml'')"
  proof -
    have "lower ''_setup.xml'' \<notin> set (map (\<lambda>(parent, file_node, extract). lower (attrib_get extract ''value'' []))
                                          (iter_file_nodes demo_root))"
      unfolding demo_sources by code_simp
    then show ?thesis
      unfolding remove_xml_file_node_found by force
  qed
  have present: "archive_contains demo_archive ''_setup.xml''"
    by (simp add: archive_contains_def demo_archive_def)
  have rm: "remove_file demo_env demo_now demo_editor ''_setup.xml''
              = (Inl (KeyError ''No matching _setup.xml entry for _setup.xml''),
                 demo_editor\<lparr>archive := Some (archive_del ''_setup.xml'' demo_archive)\<rparr>)"
    using remove_file_mismatch_state [OF demo_require_archive(1) demo_editor_fields(2) no_node] present
    by simp
  have no_target: "resolve_target_parent demo_env bare_root [] = Inr None"
    by (simp add: xml_defs demo_xml_defs)
  have payload: "content demo_upload \<noteq> []"
    by (simp add: demo_upload_def)
  have add: "add_file demo_env demo_now 0 bare_editor demo_upload [] []
               = (Inl (ValueError ''Could not determine insertion directory in _setup.xml''),
                  bare_editor\<lparr>archive := Some (archive_set ''DELTA~1.TXT''
                                                   (CabFile demo_env (content demo_upload) demo_now) plain_archive)\<rparr>)"
    by (rule add_file_no_target_state [OF demo_require_archive(3) payload demo_final_name _
          demo_new_source_name(2) bare_editor_fields(2) no_target]) simp
  show ?thesis
    unfolding rm add
    by (simp add: archive_keys_def demo_editor_fields bare_editor_fields archive_del_def archive_set_def
        demo_archive_def plain_archive_def)
qed

subsection \<open>The file count\<close>

text \<open>
  C2.  \<open>_update_numfiles\<close> runs before \<open>_rebuild_index\<close>, so the value it writes is the
  number of records before the mutation.  Removing one of the three files writes 3 and
  leaves two records; adding a file to the three writes 3 and leaves four records.
\<close>

theorem numfiles_is_count_before_mutation:
  "length (records demo_editor) = 3
   \<and> fst (remove_file demo_env demo_now demo_editor ''BETA~1.TXT'') = Inr ()
   \<and> editor_numfiles (snd (remove_file demo_env demo_now demo_editor ''BETA~1.TXT'')) = Some ''3''
   \<and> length (records (snd (remove_file demo_env demo_now demo_editor ''BETA~1.TXT''))) = 2
   \<and> fst (add_file demo_env demo_now 0 demo_editor demo_upload [] []) = Inr ()
   \<and> editor_numfiles (snd (add_file demo_env demo_now 0 demo_editor demo_upload [] [])) = Some ''3''
   \<and> length (records (snd (add_file demo_env demo_now 0 demo_editor demo_upload [] []))) = 4"
proof -
  let ?listed = "\<lambda>a. \<lambda>(parent, file_node, extract).
                   attrib_get file_node ''type'' [] \<noteq> [] \<and> attrib_get extract ''value'' [] \<noteq> []
                   \<and> map_of (entries a) (attrib_get extract ''value'' []) \<noteq> None"
  have three: "str_nat 3 = ''3''"
    by (simp add: str_nat_digit digit_chars_def)
  have "length (records demo_editor) = length (filter (?listed demo_archive) (iter_file_nodes demo_root))"
    unfolding demo_editor_def
    by (rule records_count) (simp_all add: new_editor_def demo_entries_nonempty)
  also have "\<dots> = 3"
    by (simp add: xml_defs demo_xml_defs demo_archive_def)
  finally have before: "length (records demo_editor) = 3" .
  define a1 where "a1 = archive_set ''_setup.xml''
                          (CabFile demo_env (xml_tostring demo_env
                             (demo_manifest ''3'' [(''Alpha.txt'', ''ALPHA~1.TXT''), (''Gamma.txt'', ''GAMMA~1.TXT'')])) demo_now)
                          (archive_del ''BETA~1.TXT'' demo_archive)"
  define r1 where "r1 = demo_manifest ''3'' [(''Alpha.txt'', ''ALPHA~1.TXT''), (''Gamma.txt'', ''GAMMA~1.TXT'')]"
  have removed: "remove_xml_file_node demo_root ''BETA~1.TXT'' = (True, r1)"
    unfolding r1_def by code_simp
  have present: "archive_contains demo_archive ''BETA~1.TXT''"
    by (simp add: archive_contains_def demo_archive_def)
  have rm: "remove_file demo_env demo_now demo_editor ''BETA~1.TXT''
              = (Inr (), rebuild_index (sync_setup_xml demo_env demo_now
                   (demo_editor\<lparr>archive := Some (archive_del ''BETA~1.TXT'' demo_archive),
                                xml_root := Some r1\<rparr>)))"
  proof -
    have "remove_file demo_env demo_now demo_editor ''BETA~1.TXT''
            = (Inr (), rebuild_index (sync_setup_xml demo_env demo_now
                 ((if archive_contains demo_archive ''BETA~1.TXT''
                   then demo_editor\<lparr>archive := Some (archive_del ''BETA~1.TXT'' demo_archive)\<rparr>
                   else demo_editor)
                    \<lparr>xml_root := Some (update_at [0, 0]
                                         (attrib_set ''value'' (str_nat (length (records demo_editor)))) r1)\<rparr>)))"
      by (rule remove_file_success_state [OF demo_require_archive(1) demo_editor_fields(2) removed])
        (simp add: r1_def demo_manifest_numfiles(1))
    then show ?thesis
      unfolding before three r1_def demo_manifest_numfiles(3) using present by simp
  qed
  have sync1: "sync_setup_xml demo_env demo_now
                 (demo_editor\<lparr>archive := Some (archive_del ''BETA~1.TXT'' demo_archive), xml_root := Some r1\<rparr>)
               = demo_editor\<lparr>archive := Some a1, xml_root := Some r1\<rparr>"
    by (simp add: sync_setup_xml_def archive_del_def demo_archive_def a1_def r1_def)
  have "length (records (rebuild_index (demo_editor\<lparr>archive := Some a1, xml_root := Some r1\<rparr>)))
          = length (filter (?listed a1) (iter_file_nodes r1))"
    by (rule records_count) (simp_all add: a1_def archive_set_def archive_del_def demo_archive_def)
  also have "\<dots> = 2"
    by (simp add: xml_defs demo_xml_defs r1_def a1_def archive_set_def archive_del_def demo_archive_def)
  finally have after_rm: "length (records (rebuild_index (demo_editor\<lparr>archive := Some a1, xml_root := Some r1\<rparr>))) = 2" .
  define r2 where "r2 = demo_manifest ''3'' [(''Alpha.txt'', ''ALPHA~1.TXT''), (''Beta.txt'', ''BETA~1.TXT''),
                           (''Gamma.txt'', ''GAMMA~1.TXT''), (''Delta.txt'', ''DELTA~1.TXT'')]"
  define a2 where "a2 = archive_set ''_setup.xml'' (CabFile demo_env (xml_tostring demo_env r2) demo_now)
                          (archive_set ''DELTA~1.TXT'' (CabFile demo_env (content demo_upload) demo_now) demo_archive)"
  have target: "resolve_target_parent demo_env demo_root [] = Inr (Some [1, 0])"
    by code_simp
  have appended: "append_xml_file_node demo_root [1, 0] ''Delta.txt'' ''DELTA~1.TXT'' = r2"
    by (simp add: xml_defs demo_xml_defs r2_def)
  have payload: "content demo_upload \<noteq> []"
    by (simp add: demo_upload_def)
  have named: "''Delta.txt'' \<noteq> []"
    by simp
  have counted: "find_numfiles (append_xml_file_node demo_root [1, 0] ''Delta.txt'' ''DELTA~1.TXT'')
                   = Some ([0, 0], Element ''parm'' [(''name'', ''NumFiles''), (''value'', ''3'')] [])"
    unfolding appended r2_def by (rule demo_manifest_numfiles(1))
  have add: "add_file demo_env demo_now 0 demo_editor demo_upload [] []
               = (Inr (), rebuild_index (sync_setup_xml demo_env demo_now
                    (demo_editor\<lparr>archive := Some (archive_set ''DELTA~1.TXT''
                                                      (CabFile demo_env (content demo_upload) demo_now) demo_archive),
                                 xml_root := Some r2\<rparr>)))"
  proof -
    have "add_file demo_env demo_now 0 demo_editor demo_upload [] []
            = (Inr (), rebuild_index (sync_setup_xml demo_env demo_now
                 (demo_editor\<lparr>archive := Some (archive_set ''DELTA~1.TXT''
                                                   (CabFile demo_env (content demo_upload) demo_now) demo_archive),
                              xml_root := Some (update_at [0, 0]
                                                  (attrib_set ''value'' (str_nat (length (records demo_editor))))
                                                  (append_xml_file_node demo_root [1, 0] ''Delta.txt'' ''DELTA~1.TXT''))\<rparr>)))"
      by (rule add_file_success_state [OF demo_require_archive(1) payload demo_final_name named
            demo_new_source_name(1) demo_editor_fields(2) target counted])
    then show ?thesis
      unfolding before three appended r2_def demo_manifest_numfiles(3) by simp
  qed
  have sync2: "sync_setup_xml demo_env demo_now
                 (demo_editor\<lparr>archive := Some (archive_set ''DELTA~1.TXT''
                                                   (CabFile demo_env (content demo_upload) demo_now) demo_archive),
                              xml_root := Some r2\<rparr>)
               = demo_editor\<lparr>archive := Some a2, xml_root := Some r2\<rparr>"
    by (simp add: sync_setup_xml_def archive_set_def demo_archive_def a2_def)
  have "length (records (rebuild_index (demo_editor\<lparr>archive := Some a2, xml_root := Some r2\<rparr>)))
          = length (filter (?listed a2) (iter_file_nodes r2))"
    by (rule records_count) (simp_all add: a2_def archive_set_def demo_archive_def)
  also have "\<dots> = 4"
    by (simp add: xml_defs demo_xml_defs r2_def a2_def archive_set_def demo_archive_def)
  finally have after_add: "length (records (rebuild_index (demo_editor\<lparr>archive := Some a2, xml_root := Some r2\<rparr>))) = 4" .
  show ?thesis
    unfolding rm add sync1 sync2
    by (simp add: before after_rm [unfolded r1_def] after_add [unfolded r2_def] editor_numfiles_def
        rebuild_index_frame r1_def r2_def
        demo_manifest_numfiles(2))
qed

subsection \<open>Replacing a payload\<close>

text \<open>
  C10, as the claim states it, fails: \<open>update_file\<close> does not change the payload and the
  timestamp of the entry, it puts a new \<^verbatim>\<open>CabFile\<close> in its place, so the attribute flags
  of the old entry are lost.  The entry of Beta is read-only before the call and has no
  attribute flag after it.
\<close>

theorem update_file_resets_attributes:
  "map_option attribs (editor_entry demo_editor ''BETA~1.TXT'') = Some 0x01
   \<and> fst (update_file demo_env demo_now demo_editor ''BETA~1.TXT'' demo_upload) = Inr ()
   \<and> map_option attribs
         (editor_entry (snd (update_file demo_env demo_now demo_editor ''BETA~1.TXT'' demo_upload))
            ''BETA~1.TXT'') = Some 0x00"
proof -
  have present: "archive_contains demo_archive ''BETA~1.TXT''"
    by (simp add: archive_contains_def demo_archive_def)
  have run: "update_file demo_env demo_now demo_editor ''BETA~1.TXT'' demo_upload
               = (Inr (), rebuild_index (demo_editor\<lparr>archive :=
                    Some (archive_set ''BETA~1.TXT'' (CabFile demo_env (content demo_upload) demo_now)
                            demo_archive)\<rparr>))"
    by (simp add: update_file_def demo_require_archive present demo_upload_def)
  show ?thesis
    unfolding run
    by (simp add: editor_entry_def rebuild_index_frame demo_editor_fields archive_set_def
        demo_archive_def demo_file_def CabFile_def demo_env_def)
qed

text \<open>
  C10, amended.  On a loaded editor, for a source name present in the archive and a
  non-empty payload, \<open>update_file\<close> succeeds and replaces that one entry by a new entry
  built from the payload and the current time: its payload and timestamp are the new
  ones, its attribute flags are those of a new entry and it has no stored Windows name.
  The key order and every other entry of the archive are unchanged, the XML tree and with
  it the value of \<^verbatim>\<open>NumFiles\<close> are unchanged, and the \<^verbatim>\<open>_setup.xml\<close> entry is not
  rewritten (unless it is the entry being replaced, which then holds the payload).
\<close>

theorem update_file_changes_one_entry:
  assumes "require_archive ed = Inr a"
    and "archive_contains a name"
    and "content up \<noteq> []"
  shows "\<exists>ed' a'. update_file env now ed name up = (Inr (), ed')
           \<and> archive ed' = Some a'
           \<and> map_of (entries a') = (map_of (entries a))(name \<mapsto> CabFile env (content up) now)
           \<and> buf (CabFile env (content up) now) = Some (content up)
           \<and> date (CabFile env (content up) now) = Some (fst now)
           \<and> time (CabFile env (content up) now) = Some (snd now)
           \<and> attribs (CabFile env (content up) now) = fresh_attribs env
           \<and> filename_win32 (CabFile env (content up) now) = None
           \<and> map fst (entries a') = map fst (entries a)
           \<and> archive_set_id a' = archive_set_id a
           \<and> xml_root ed' = xml_root ed
           \<and> map_option numfiles_value (xml_root ed') = map_option numfiles_value (xml_root ed)
           \<and> map_of (entries a') ''_setup.xml''
               = (if name = ''_setup.xml'' then Some (CabFile env (content up) now)
                  else map_of (entries a) ''_setup.xml'')
           \<and> path ed' = path ed \<and> loaded_name ed' = loaded_name ed
           \<and> setup_encoding ed' = setup_encoding ed
           \<and> signature_before ed' = signature_before ed"
proof -
  let ?f = "CabFile env (content up) now"
  let ?a' = "archive_set name ?f a"
  let ?ed' = "rebuild_index (ed\<lparr>archive := Some ?a'\<rparr>)"
  have run: "update_file env now ed name up = (Inr (), ?ed')"
    using assms by (simp add: update_file_def Let_def)
  have present: "map_of (entries a) name \<noteq> None"
    using assms(2) by (simp add: archive_contains_def)
  have keys: "map fst (entries ?a') = map fst (entries a)"
    using present by (simp add: archive_set_def map_fst_update_present)
  have lookup: "map_of (entries ?a') = (map_of (entries a))(name \<mapsto> ?f)"
    by (simp add: archive_set_def update_conv')
  have fields: "buf ?f = Some (content up)" "date ?f = Some (fst now)" "time ?f = Some (snd now)"
    "attribs ?f = fresh_attribs env" "filename_win32 ?f = None"
    by (simp_all add: CabFile_def)
  have "archive ?ed' = Some ?a'" "xml_root ?ed' = xml_root ed" "path ?ed' = path ed"
    "loaded_name ?ed' = loaded_name ed" "setup_encoding ?ed' = setup_encoding ed"
    "signature_before ?ed' = signature_before ed" "archive_set_id ?a' = archive_set_id a"
    by (simp_all add: rebuild_index_frame archive_set_def)
  with run keys lookup fields show ?thesis
    by (intro exI [of _ ?ed'] exI [of _ ?a']) simp
qed

theorem update_file_changes_one_entry_witness:
  "require_archive demo_editor = Inr demo_archive
   \<and> archive_contains demo_archive ''BETA~1.TXT''
   \<and> content demo_upload \<noteq> []
   \<and> fst (update_file demo_env demo_now demo_editor ''BETA~1.TXT'' demo_upload) = Inr ()
   \<and> xml_root (snd (update_file demo_env demo_now demo_editor ''BETA~1.TXT'' demo_upload)) = Some demo_root"
proof -
  note h1 = demo_require_archive(1) and root = demo_editor_fields(2)
  have h2: "archive_contains demo_archive ''BETA~1.TXT''"
    by (simp add: archive_contains_def demo_archive_def)
  have h3: "content demo_upload \<noteq> []"
    by (simp add: demo_upload_def)
  from update_file_changes_one_entry [OF h1 h2 h3, of demo_env demo_now] root h1 h2 h3
  show ?thesis by auto
qed

subsection \<open>A failed load\<close>

lemma demo_env_load:
  "read_bytes demo_env p = Some (latin1 p)"
  "cab_parse demo_env b = None"
  "path_stem demo_env ''other.cab'' = ''other''"
  "path_stem demo_env ''other'' = ''other''"
  "strip ''other'' = ''other''"
  by (simp_all add: demo_env_def strip_def is_space_def)

text \<open>
  C5, as the claim states it, fails: \<open>load\<close> stores the new path and the new display name
  before it reads the file, so after a failed parse the path holds the new path (it is
  not cleared) and \<open>loaded_name\<close> has changed.
\<close>

theorem load_failure_keeps_new_path:
  "fst (load demo_env demo_editor ''other.cab'' None) = Inl ParseError
   \<and> path demo_editor = Some ''demo.cab''
   \<and> path (snd (load demo_env demo_editor ''other.cab'' None)) = Some ''other.cab''
   \<and> loaded_name demo_editor = ''demo''
   \<and> loaded_name (snd (load demo_env demo_editor ''other.cab'' None)) = ''other''"
  by (simp add: load_def Let_def demo_env_load demo_editor_fields)

text \<open>
  C5, amended.  If \<open>load\<close> fails because the file cannot be read or its bytes do not parse
  as a CAB, then the archive, the XML tree, the detected encoding, the records, the
  directories and the signature snapshot keep their prior values; the path holds the new
  path, and \<open>loaded_name\<close> the name derived from the new display name or path.
\<close>

theorem load_failure_keeps_archive_state:
  assumes "read_bytes env file_path = None
           \<or> (\<exists>bytes. read_bytes env file_path = Some bytes \<and> cab_parse env bytes = None)"
  shows "(fst (load env ed file_path display) = Inl OSError
            \<or> fst (load env ed file_path display) = Inl ParseError)
       \<and> archive (snd (load env ed file_path display)) = archive ed
       \<and> xml_root (snd (load env ed file_path display)) = xml_root ed
       \<and> setup_encoding (snd (load env ed file_path display)) = setup_encoding ed
       \<and> records (snd (load env ed file_path display)) = records ed
       \<and> directories (snd (load env ed file_path display)) = directories ed
       \<and> signature_before (snd (load env ed file_path display)) = signature_before ed
       \<and> path (snd (load env ed file_path display)) = Some file_path
       \<and> loaded_name (snd (load env ed file_path display))
           = (let stem = path_stem env
                           (strip (case display of
                                     None \<Rightarrow> path_stem env file_path
                                   | Some d \<Rightarrow> if d \<noteq> [] then d else path_stem env file_path))
              in if stem \<noteq> [] then stem else ''cabinetforge_output'')"
  using assms by (auto simp: load_def Let_def)

theorem load_failure_keeps_archive_state_witness:
  "(\<exists>bytes. read_bytes demo_env ''other.cab'' = Some bytes \<and> cab_parse demo_env bytes = None)
   \<and> fst (load demo_env demo_editor ''other.cab'' None) = Inl ParseError
   \<and> archive (snd (load demo_env demo_editor ''other.cab'' None)) = Some demo_archive
   \<and> xml_root (snd (load demo_env demo_editor ''other.cab'' None)) = Some demo_root
   \<and> path (snd (load demo_env demo_editor ''other.cab'' None)) = Some ''other.cab''"
proof -
  have h: "\<exists>bytes. read_bytes demo_env ''other.cab'' = Some bytes \<and> cab_parse demo_env bytes = None"
    by (simp add: demo_env_load)
  have f: "fst (load demo_env demo_editor ''other.cab'' None) \<noteq> Inl OSError"
    by (simp add: load_def Let_def demo_env_load)
  from load_failure_keeps_archive_state [of demo_env "''other.cab''" demo_editor None]
    h f demo_editor_fields(1,2)
  show ?thesis by simp
qed

section \<open>Properties of the writer\<close>

subsection \<open>The file ordering\<close>

lemma order_loop_eq:
  "order_loop template_order ordered remaining =
     (ordered @ first_occurrences (filter (\<lambda>n. n \<in> set remaining) template_order),
      filter (\<lambda>n. n \<notin> set template_order) remaining)"
proof (induction template_order arbitrary: ordered remaining)
  case Nil
  then show ?case by simp
next
  case (Cons name rest)
  show ?case
  proof (cases "name \<in> set remaining")
    case True
    have kept: "removeAll name (filter (\<lambda>n. n \<in> set remaining) rest)
                = filter (\<lambda>n. n \<in> set (removeAll name remaining)) rest"
      by (induction rest) auto
    have left: "filter (\<lambda>n. n \<notin> set rest) (removeAll name remaining)
                = filter (\<lambda>n. n \<notin> set (name # rest)) remaining"
      by (induction remaining) auto
    from True show ?thesis
      by (simp add: Cons.IH kept left del: set_simps set_removeAll)
  next
    case False
    then have "filter (\<lambda>n. n \<notin> set (name # rest)) remaining = filter (\<lambda>n. n \<notin> set rest) remaining"
      by (intro filter_cong) auto
    with False show ?thesis
      by (simp add: Cons.IH del: set_simps)
  qed
qed

lemma first_occurrences_distinct: "distinct xs \<Longrightarrow> first_occurrences xs = xs"
  by (induction xs) auto

text \<open>
  C7, as the claim states it, fails.  With \<^verbatim>\<open>sort=False\<close> the remaining names come out
  in the iteration order of the Python set \<^verbatim>\<open>names\<close>, which need not be the archive's
  insertion order: for a set that iterates in reverse, the archive with the keys
  \<^verbatim>\<open>_setup.xml\<close>, Alpha, Beta, Gamma and the template order Beta, Alpha gives Gamma before
  \<^verbatim>\<open>_setup.xml\<close>.  And a name that the template lists twice is emitted once.
\<close>

theorem order_names_not_archive_order:
  "order_names demo_codec demo_archive (Some demo_template) False
     = [''BETA~1.TXT'', ''ALPHA~1.TXT'', ''GAMMA~1.TXT'', ''_setup.xml'']
   \<and> spec_order_names demo_archive (Some demo_template) False
     = [''BETA~1.TXT'', ''ALPHA~1.TXT'', ''_setup.xml'', ''GAMMA~1.TXT'']
   \<and> order_names demo_codec plain_archive
        (Some (demo_template\<lparr>file_order := [''BETA~1.TXT'', ''BETA~1.TXT'']\<rparr>)) True
     = [''BETA~1.TXT'', ''ALPHA~1.TXT'']
   \<and> spec_order_names plain_archive
        (Some (demo_template\<lparr>file_order := [''BETA~1.TXT'', ''BETA~1.TXT'']\<rparr>)) True
     = [''BETA~1.TXT'', ''BETA~1.TXT'', ''ALPHA~1.TXT'']"
  by (simp add: order_names_def spec_order_names_def plain_archive_def demo_archive_def
      demo_codec_def demo_template_def)

text \<open>
  C7, amended.  The writer's file ordering is the template's file order restricted to the
  names present in the archive, each name once at its first position, followed by the
  remaining archive names: sorted ascending when \<^verbatim>\<open>sort\<close> is true, and in the iteration
  order of the set of those names when it is false.  Without a template the first part is
  empty.
\<close>

theorem order_names_characterisation:
  "order_names cd a template sorted_output =
     (let keys = remdups (map fst (entries a));
          template_order = (case template of None \<Rightarrow> [] | Some t \<Rightarrow> file_order t);
          remaining = filter (\<lambda>n. n \<notin> set template_order) keys
      in first_occurrences (filter (\<lambda>n. n \<in> set keys) template_order)
         @ (if sorted_output then sort remaining else set_iteration cd remaining))"
  by (cases template) (simp_all add: order_names_def Let_def order_loop_eq)

text \<open>
  For sorted output and a template that lists no name twice, this is the ordering of the
  specification.
\<close>

lemma order_names_sorted_is_spec:
  assumes "distinct (map fst (entries a))" and "distinct (file_order t)"
  shows "order_names cd a (Some t) True = spec_order_names a (Some t) True"
  using assms
  by (simp add: order_names_def order_loop_eq spec_order_names_def Let_def
      first_occurrences_distinct distinct_remdups_id)

subsection \<open>Running the writer\<close>

lemma chunkify_Nil: "chunkify n [] = []"
  by (simp add: chunkify.simps)

lemma chunkify_small: "xs \<noteq> [] \<Longrightarrow> length xs \<le> n \<Longrightarrow> chunkify n xs = [xs]"
  by (subst chunkify.simps) (cases n; simp add: chunkify_Nil)

lemma le_bytes_2: "le_bytes 2 v = [of_nat (v mod 256), of_nat (v div 256 mod 256)]"
proof -
  have e: "(2::nat) = Suc (Suc 0)" by simp
  show ?thesis by (subst e) simp
qed

lemma le_bytes_4:
  "le_bytes 4 v = [of_nat (v mod 256), of_nat (v div 256 mod 256), of_nat (v div 256 div 256 mod 256),
                   of_nat (v div 256 div 256 div 256 mod 256)]"
proof -
  have e: "(4::nat) = Suc (Suc (Suc (Suc 0)))" by simp
  show ?thesis by (subst e) simp
qed

lemma replicate_4: "replicate 4 x = [x, x, x, x]"
  by (simp add: numeral_eq_Suc)

lemmas struct_fmts = FMT_CFHEADER_def FMT_CFHEADER_RESERVE_def FMT_CFFOLDER_def FMT_CFFILE_def
  FMT_CFDATA_def

lemmas codec_defs = demo_codec_def dos_date_def dos_time_def stored_deflate_def byte_sum_def

lemmas writer_eval = replicate_4 build_ce_cab_bytes_def order_names_def build_folders_def
  build_folder_def first_new_key_def setdefault_append_def buf_or_empty_def cab_len_def chunkify_small
  chunkify_Nil CK_def folder_index_by_name_def enumerate_eq_zip upt_rec wire_name_def latin1_def
  block_bytes_def build_header_def use_reserve_def header_size_def default_template_def MSCF_def
  struct_fmts le_bytes_2 le_bytes_4 Let_def

lemma demo_cab_built:
  "build_ce_cab_bytes demo_codec plain_archive True (Some demo_template) True = Inr demo_cab"
  by (simp add: writer_eval codec_defs plain_archive_def demo_template_def demo_file_def demo_cab_def)

lemma plain_cab_built:
  "build_ce_cab_bytes demo_codec plain_archive True None True = Inr plain_cab"
  by (simp add: writer_eval codec_defs plain_archive_def demo_file_def plain_cab_def)

subsection \<open>The data blocks\<close>

lemma chunkify_lengths: "0 < n \<Longrightarrow> c \<in> set (chunkify n xs) \<Longrightarrow> length c \<le> n"
proof (induction n xs rule: chunkify.induct)
  case (1 n xs)
  then show ?case
    by (cases "xs = []") (auto simp: chunkify.simps [of n xs] chunkify_Nil)
qed

lemma concat_chunkify: "0 < n \<Longrightarrow> concat (chunkify n xs) = xs"
proof (induction n xs rule: chunkify.induct)
  case (1 n xs)
  then show ?case
    by (cases "xs = []") (auto simp: chunkify.simps [of n xs] chunkify_Nil)
qed

lemma collect_Inr: "collect rs = Inr vs \<Longrightarrow> rs = map Inr vs"
proof (induction rs arbitrary: vs)
  case Nil
  then show ?case by simp
next
  case (Cons r rs)
  then show ?case
    by (cases r) (auto split: sum.splits)
qed

text \<open>
  The blocks of one folder are the chunks of its payload, none longer than 32768 bytes
  and at least one, each encoded and paired with its plain size.
\<close>

lemma build_folder_blocks:
  assumes "build_folder cd a t compress kn = Inr fb"
  shows "\<exists>chunks. chunks \<noteq> []
           \<and> blocks fb = map (\<lambda>plain. (if compress then CK @ deflate cd plain else plain, length plain)) chunks
           \<and> (\<forall>plain \<in> set chunks. length plain \<le> 32768)
           \<and> join_payloads a (names fb) = Inr (concat chunks)"
proof -
  obtain key ns where kn: "kn = (key, ns)" by (cases kn)
  from assms obtain raw where raw: "join_payloads a ns = Inr raw"
    by (auto simp: build_folder_def kn Let_def split: sum.splits)
  define chunks where "chunks = (if chunkify 0x8000 raw = [] then [[]] else chunkify 0x8000 raw)"
  have fb: "names fb = ns"
    "blocks fb = map (\<lambda>plain. (if compress then CK @ deflate cd plain else plain, length plain)) chunks"
    using assms raw by (auto simp: build_folder_def kn Let_def chunks_def)
  have "concat (chunkify 0x8000 raw) = raw"
    by (rule concat_chunkify) simp
  then have whole: "concat chunks = raw"
    by (auto simp: chunks_def)
  have small: "\<forall>plain \<in> set chunks. length plain \<le> 32768"
    using chunkify_lengths [of "0x8000" _ raw] by (auto simp: chunks_def)
  have "chunks \<noteq> []" by (simp add: chunks_def)
  with fb whole small raw show ?thesis by auto
qed

lemma build_folders_member:
  assumes "build_folders cd a ordered t compress = Inr fbs" and "fb \<in> set fbs"
  shows "\<exists>kn. build_folder cd a t compress kn = Inr fb"
proof -
  from assms(1) have "map (build_folder cd a t compress)
                        (key_loop (file_folders t) (first_new_key (file_folders t)) ordered [])
                      = map Inr fbs"
    by (simp add: build_folders_def collect_Inr)
  then have "Inr fb \<in> set (map (build_folder cd a t compress)
                        (key_loop (file_folders t) (first_new_key (file_folders t)) ordered []))"
    using assms(2) by simp
  then obtain kn where "build_folder cd a t compress kn = Inr fb"
    by (auto simp: image_iff)
  then show ?thesis ..
qed

text \<open>The data area is the sequence of the block records, folder by folder.\<close>

lemma build_data_blocks_eq:
  "build_data_blocks cd cb_data bs = Inr blob \<Longrightarrow> blob = concat (map (cfdata_record cd cb_data) bs)"
proof (induction bs arbitrary: blob)
  case Nil
  then show ?case by simp
next
  case (Cons b bs)
  obtain encoded plain_size where b: "b = (encoded, plain_size)" by (cases b)
  from Cons.prems obtain rest where rest: "build_data_blocks cd cb_data bs = Inr rest"
    by (auto simp: b FMT_CFDATA_def split: sum.splits if_splits)
  from Cons.prems rest have "blob = cfdata_record cd cb_data b @ rest"
    by (auto simp: b FMT_CFDATA_def cfdata_record_def split: sum.splits if_splits)
  with Cons.IH [OF rest] show ?case by simp
qed

lemma build_folder_and_data_blobs_data:
  "build_folder_and_data_blobs cd fbs cursor cb_folder cb_data compress = Inr (folder_blob, data_blob)
   \<Longrightarrow> data_blob = concat (map (\<lambda>fb. concat (map (cfdata_record cd cb_data) (blocks fb))) fbs)"
proof (induction fbs arbitrary: cursor folder_blob data_blob)
  case Nil
  then show ?case by simp
next
  case (Cons fb fbs)
  from Cons.prems obtain data fblob dblob where
    data: "build_data_blocks cd cb_data (blocks fb) = Inr data"
    and rest: "build_folder_and_data_blobs cd fbs (cursor + block_bytes cb_data (blocks fb))
                 cb_folder cb_data compress = Inr (fblob, dblob)"
    and blob: "data_blob = data @ dblob"
    by (auto split: sum.splits)
  from build_data_blocks_eq [OF data] Cons.IH [OF rest] blob show ?case by simp
qed

text \<open>
  C8.  When \<open>build_ce_cab_bytes\<close> with \<^verbatim>\<open>compress=True\<close> returns bytes, they end with the
  data area of the folders it built, and there is at least one folder.  Every folder has
  at least one block, also when its payload is empty; its blocks are the chunks of the
  concatenated payloads of its files, each chunk of at most 32768 bytes, and the encoded
  bytes of a block are \<^verbatim>\<open>CK\<close> followed by the raw DEFLATE stream of the chunk.
\<close>

theorem compressed_blocks_are_ck_deflate:
  assumes "build_ce_cab_bytes cd a True template sorted_output = Inr out"
  shows "\<exists>fbs head.
           build_folders cd a (order_names cd a template sorted_output)
             (case template of None \<Rightarrow> default_template a | Some t \<Rightarrow> t) True = Inr fbs
         \<and> fbs \<noteq> []
         \<and> out = head @ concat (map (\<lambda>fb. concat (map (cfdata_record cd
                        (cb_cfdata (case template of None \<Rightarrow> default_template a | Some t \<Rightarrow> t)))
                        (blocks fb))) fbs)
         \<and> (\<forall>fb \<in> set fbs.
               \<exists>chunks. chunks \<noteq> []
                 \<and> blocks fb = map (\<lambda>plain. (CK @ deflate cd plain, length plain)) chunks
                 \<and> (\<forall>plain \<in> set chunks. length plain \<le> 32768)
                 \<and> join_payloads a (names fb) = Inr (concat chunks))"
proof -
  define t where "t = (case template of None \<Rightarrow> default_template a | Some t \<Rightarrow> t)"
  define ordered where "ordered = order_names cd a template sorted_output"
  from assms obtain fbs offsets files folder_blob data_blob header where
    fbs: "build_folders cd a ordered t True = Inr fbs" and ne: "fbs \<noteq> []"
    and blobs: "build_folder_and_data_blobs cd fbs
                  (header_size t + length fbs * (struct_calcsize FMT_CFFOLDER + cb_cffolder t) + length files)
                  (cb_cffolder t) (cb_cfdata t) True = Inr (folder_blob, data_blob)"
    and out: "out = header @ folder_blob @ files @ data_blob"
    unfolding build_ce_cab_bytes_def Let_def t_def [symmetric] ordered_def [symmetric]
    by (auto split: sum.splits if_splits)
  have each: "\<exists>chunks. chunks \<noteq> []
                 \<and> blocks fb = map (\<lambda>plain. (CK @ deflate cd plain, length plain)) chunks
                 \<and> (\<forall>plain \<in> set chunks. length plain \<le> 32768)
                 \<and> join_payloads a (names fb) = Inr (concat chunks)" if "fb \<in> set fbs" for fb
  proof -
    from build_folders_member [OF fbs that] obtain kn where "build_folder cd a t True kn = Inr fb" ..
    from build_folder_blocks [OF this] show ?thesis by simp
  qed
  from build_folder_and_data_blobs_data [OF blobs] out
  have "out = (header @ folder_blob @ files)
              @ concat (map (\<lambda>fb. concat (map (cfdata_record cd (cb_cfdata t)) (blocks fb))) fbs)"
    by simp
  with fbs ne each show ?thesis
    unfolding t_def ordered_def by blast
qed

theorem compressed_blocks_are_ck_deflate_witness:
  "build_ce_cab_bytes demo_codec plain_archive True (Some demo_template) True = Inr demo_cab
   \<and> (\<exists>fbs head.
         build_folders demo_codec plain_archive
           (order_names demo_codec plain_archive (Some demo_template) True) demo_template True = Inr fbs
       \<and> fbs \<noteq> []
       \<and> demo_cab = head @ concat (map (\<lambda>fb. concat (map (cfdata_record demo_codec (cb_cfdata demo_template))
                                                       (blocks fb))) fbs))"
proof -
  from compressed_blocks_are_ck_deflate [OF demo_cab_built] obtain fbs head where
    "build_folders demo_codec plain_archive
       (order_names demo_codec plain_archive (Some demo_template) True) demo_template True = Inr fbs"
    "fbs \<noteq> []"
    "demo_cab = head @ concat (map (\<lambda>fb. concat (map (cfdata_record demo_codec (cb_cfdata demo_template))
                                                   (blocks fb))) fbs)"
    by auto
  with demo_cab_built show ?thesis by blast
qed

subsection \<open>Rendering the editor's archive\<close>

lemma manifest_editor_fields:
  "archive manifest_editor = Some manifest_archive"
  "xml_root manifest_editor = Some bare_root"
  by (simp_all add: manifest_editor_def rebuild_index_frame new_editor_def)

lemma manifest_require_archive: "require_archive manifest_editor = Inr manifest_archive"
  by (simp add: require_archive_Inr manifest_editor_fields manifest_archive_def)

lemma ce_env_fields:
  "archive_save ce_env a c s = build_ce_cab_bytes demo_codec a c None s"
  "xml_tostring ce_env bare_root = latin1 ''wap-provisioningdoc'' @ [2]"
  "fresh_attribs ce_env = 0"
  by (simp_all add: ce_env_def demo_env_def bare_root_def)

text \<open>The result and the editor after \<open>build_cab_bytes\<close> on a loaded editor.\<close>

lemma build_cab_bytes_loaded:
  assumes "require_archive ed = Inr a"
  shows "build_cab_bytes env now ed c =
           (case xml_root ed of
              None \<Rightarrow> (archive_save env a c True, ed)
            | Some root \<Rightarrow>
                (archive_save env (archive_set ''_setup.xml'' (CabFile env (xml_tostring env root) now) a) c True,
                 ed\<lparr>archive := Some (archive_set ''_setup.xml'' (CabFile env (xml_tostring env root) now) a)\<rparr>))"
proof -
  from assms have loaded: "archive ed = Some a" "entries a \<noteq> []"
    by (simp_all add: require_archive_Inr)
  show ?thesis
    by (simp add: build_cab_bytes_def assms sync_setup_xml_def loaded Let_def split: option.splits)
qed

lemma archive_set_loaded:
  "require_archive (ed\<lparr>archive := Some (archive_set name f a)\<rparr>) = Inr (archive_set name f a)"
  by (cases "entries a") (auto simp: require_archive_Inr archive_set_def)

lemma archive_set_twice: "archive_set name f (archive_set name g a) = archive_set name f a"
  by (simp add: archive_set_def)

text \<open>The CE writer on the archive of \<open>manifest_editor\<close>, stamped at the two clock readings.\<close>

lemma manifest_cab_built:
  "build_ce_cab_bytes demo_codec
     (archive_set ''_setup.xml'' (CabFile ce_env (xml_tostring ce_env bare_root) demo_now) manifest_archive)
     False None True = Inr (manifest_cab 143)"
  "build_ce_cab_bytes demo_codec
     (archive_set ''_setup.xml'' (CabFile ce_env (xml_tostring ce_env bare_root) demo_later) manifest_archive)
     False None True = Inr (manifest_cab 144)"
  by (simp_all add: writer_eval codec_defs manifest_archive_def demo_file_def manifest_cab_def
      archive_set_def CabFile_def ce_env_fields demo_now_def demo_later_def)

text \<open>The layout of the CAB \<open>demo_cab\<close>.\<close>

lemma parse_folders_numeral:
  "parse_folders bytes cb_folder (numeral k) offset reserves
     = parse_folders bytes cb_folder (Suc (pred_numeral k)) offset reserves"
  by (simp only: numeral_eq_Suc)

lemma parse_files_numeral:
  "parse_files bytes (numeral k) offset order folders
     = parse_files bytes (Suc (pred_numeral k)) offset order folders"
  by (simp only: numeral_eq_Suc)

lemma demo_names_decoded:
  "latin1_decode [66, 69, 84, 65, 126, 49, 46, 84, 88, 84] = ''BETA~1.TXT''"
  "latin1_decode [65, 76, 80, 72, 65, 126, 49, 46, 84, 88, 84] = ''ALPHA~1.TXT''"
  by code_simp+

lemmas parser_eval = parse_cab_layout_def struct_unpack_from_def struct_fmts MSCF_def
  find_nul_def Let_def parse_folders_numeral parse_files_numeral

lemma demo_cab_layout: "parse_cab_layout demo_cab = Some demo_template"
  by (simp add: parser_eval demo_cab_def demo_template_def demo_names_decoded)

text \<open>
  C3, as the claim states it, fails: \<open>build_cab_bytes\<close> hands the archive to its own
  \<^verbatim>\<open>save\<close> method and passes no layout template; the editor holds none.  The editor
  \<open>plain_editor\<close> holds the archive of the CAB \<open>demo_cab\<close>, whose layout is
  \<open>demo_template\<close>.  Even when the archive's writer is the CE writer, the bytes built are
  those of the writer without a template, which differ from the bytes of the CE writer
  with the template of the CAB.
\<close>

theorem build_cab_bytes_passes_no_template:
  "parse_cab_layout demo_cab = Some demo_template
   \<and> build_ce_cab_bytes demo_codec plain_archive True (Some demo_template) True = Inr demo_cab
   \<and> fst (build_cab_bytes ce_env demo_now plain_editor True) = Inr plain_cab
   \<and> plain_cab \<noteq> demo_cab"
proof -
  have built: "fst (build_cab_bytes ce_env demo_now plain_editor True) = Inr plain_cab"
    by (simp add: build_cab_bytes_loaded [OF demo_require_archive(2)] plain_editor_fields
        ce_env_fields(1) plain_cab_built)
  have differ: "plain_cab \<noteq> demo_cab"
    by (simp add: plain_cab_def demo_cab_def)
  from demo_cab_layout demo_cab_built built differ show ?thesis by simp
qed

text \<open>
  C3, amended.  On a loaded editor \<open>build_cab_bytes\<close> first writes the serialised XML tree
  into the \<^verbatim>\<open>_setup.xml\<close> entry, stamped with the current time, when a manifest exists,
  and then returns what the archive's own \<^verbatim>\<open>save\<close> method gives for the archive with
  the compression flag and \<^verbatim>\<open>sort=True\<close>.  No layout template takes part.  The XML tree
  and the records are left as they were.
\<close>

theorem build_cab_bytes_is_archive_save:
  assumes "require_archive ed = Inr a"
  shows "fst (build_cab_bytes env now ed c)
           = archive_save env
               (case xml_root ed of
                  None \<Rightarrow> a
                | Some root \<Rightarrow> archive_set ''_setup.xml'' (CabFile env (xml_tostring env root) now) a)
               c True
       \<and> archive (snd (build_cab_bytes env now ed c))
           = Some (case xml_root ed of
                     None \<Rightarrow> a
                   | Some root \<Rightarrow> archive_set ''_setup.xml'' (CabFile env (xml_tostring env root) now) a)
       \<and> xml_root (snd (build_cab_bytes env now ed c)) = xml_root ed
       \<and> records (snd (build_cab_bytes env now ed c)) = records ed"
proof -
  from assms have "archive ed = Some a"
    by (simp add: require_archive_Inr)
  then show ?thesis
    by (simp add: build_cab_bytes_loaded [OF assms] split: option.splits)
qed

theorem build_cab_bytes_is_archive_save_witness:
  "require_archive manifest_editor = Inr manifest_archive
   \<and> fst (build_cab_bytes ce_env demo_now manifest_editor False) = Inr (manifest_cab 143)
   \<and> xml_root (snd (build_cab_bytes ce_env demo_now manifest_editor False)) = Some bare_root"
  using build_cab_bytes_is_archive_save [OF manifest_require_archive, of ce_env demo_now False]
  by (simp add: manifest_require_archive manifest_editor_fields ce_env_fields(1) manifest_cab_built(1))

subsection \<open>Building twice\<close>

text \<open>
  C9, as the claim states it, fails: with a manifest every call stamps the \<^verbatim>\<open>_setup.xml\<close>
  entry with the current time.  With the CE writer as the archive's writer, two
  consecutive calls two seconds apart give bytes that differ in the packed time of that
  entry.
\<close>

theorem consecutive_builds_differ:
  "fst (build_cab_bytes ce_env demo_now manifest_editor False) = Inr (manifest_cab 143)
   \<and> fst (build_cab_bytes ce_env demo_later
            (snd (build_cab_bytes ce_env demo_now manifest_editor False)) False)
       = Inr (manifest_cab 144)
   \<and> manifest_cab 143 \<noteq> manifest_cab 144"
proof -
  let ?a1 = "archive_set ''_setup.xml'' (CabFile ce_env (xml_tostring ce_env bare_root) demo_now) manifest_archive"
  have first: "build_cab_bytes ce_env demo_now manifest_editor False
                 = (Inr (manifest_cab 143), manifest_editor\<lparr>archive := Some ?a1\<rparr>)"
    by (simp add: build_cab_bytes_loaded [OF manifest_require_archive] manifest_editor_fields
        ce_env_fields(1) manifest_cab_built(1))
  have second: "fst (build_cab_bytes ce_env demo_later (manifest_editor\<lparr>archive := Some ?a1\<rparr>) False)
                 = Inr (manifest_cab 144)"
    by (simp add: build_cab_bytes_loaded [OF archive_set_loaded] manifest_editor_fields
        ce_env_fields(1) archive_set_twice manifest_cab_built(2))
  have differ: "manifest_cab 143 \<noteq> manifest_cab 144"
    by (simp add: manifest_cab_def)
  show ?thesis
    unfolding first using second differ by simp
qed

text \<open>
  C9, amended.  Two consecutive calls of \<open>build_cab_bytes\<close> with no mutation between them
  return the same result when both read the same clock value, and when the editor has no
  manifest.  With a manifest, the second call returns what the archive's writer gives for
  the archive whose \<^verbatim>\<open>_setup.xml\<close> entry holds the same serialised tree stamped with the
  time of the second call.
\<close>

theorem build_cab_bytes_repeatable:
  "build_cab_bytes env now (snd (build_cab_bytes env now ed c)) c = build_cab_bytes env now ed c
   \<and> (xml_root ed = None \<longrightarrow>
        build_cab_bytes env later (snd (build_cab_bytes env now ed c)) c = build_cab_bytes env now ed c)
   \<and> (\<forall>a root. require_archive ed = Inr a \<longrightarrow> xml_root ed = Some root \<longrightarrow>
        fst (build_cab_bytes env later (snd (build_cab_bytes env now ed c)) c)
          = archive_save env
              (archive_set ''_setup.xml'' (CabFile env (xml_tostring env root) later) a) c True)"
proof -
  have stamped: "fst (build_cab_bytes env t2 (snd (build_cab_bytes env t1 ed c)) c)
                   = archive_save env (archive_set ''_setup.xml'' (CabFile env (xml_tostring env root) t2) a) c True
                 \<and> snd (build_cab_bytes env t2 (snd (build_cab_bytes env t1 ed c)) c)
                   = ed\<lparr>archive := Some (archive_set ''_setup.xml'' (CabFile env (xml_tostring env root) t2) a)\<rparr>"
    if "require_archive ed = Inr a" and "xml_root ed = Some root" for a root t1 t2
    by (simp add: build_cab_bytes_loaded [OF that(1)] that(2)
        build_cab_bytes_loaded [OF archive_set_loaded] archive_set_twice)
  have plain: "build_cab_bytes env t2 (snd (build_cab_bytes env t1 ed c)) c = build_cab_bytes env t1 ed c"
    if "xml_root ed = None" for t1 t2
  proof (cases "require_archive ed")
    case (Inl e)
    then show ?thesis by (simp add: build_cab_bytes_def)
  next
    case (Inr a)
    then show ?thesis by (simp add: build_cab_bytes_loaded [OF Inr] that)
  qed
  have same: "build_cab_bytes env now (snd (build_cab_bytes env now ed c)) c = build_cab_bytes env now ed c"
  proof (cases "require_archive ed")
    case (Inl e)
    then show ?thesis by (simp add: build_cab_bytes_def)
  next
    case (Inr a)
    show ?thesis
    proof (cases "xml_root ed")
      case None
      then show ?thesis by (rule plain)
    next
      case (Some root)
      from stamped [OF Inr Some, of now now] show ?thesis
        by (simp add: prod_eq_iff build_cab_bytes_loaded [OF Inr] Some)
    qed
  qed
  from same plain stamped show ?thesis by blast
qed

theorem build_cab_bytes_repeatable_witness:
  "xml_root plain_editor = None
   \<and> build_cab_bytes ce_env demo_later (snd (build_cab_bytes ce_env demo_now plain_editor True)) True
       = build_cab_bytes ce_env demo_now plain_editor True
   \<and> require_archive manifest_editor = Inr manifest_archive
   \<and> xml_root manifest_editor = Some bare_root
   \<and> fst (build_cab_bytes ce_env demo_later
            (snd (build_cab_bytes ce_env demo_now manifest_editor False)) False)
       = Inr (manifest_cab 144)"
  using build_cab_bytes_repeatable [of ce_env demo_now plain_editor True demo_later]
    build_cab_bytes_repeatable [of ce_env demo_now manifest_editor False demo_later]
  by (simp add: plain_editor_fields manifest_require_archive manifest_editor_fields
      ce_env_fields(1) manifest_cab_built(2))

end
